theory Spec2Isabelle
  imports Main
begin

section \<open>JavaScript values, objects and errors\<close>

text \<open>
  The action is JavaScript, so its parameters are dynamically typed. Pure JSON trees
  (what \<^verbatim>\<open>JSON.parse\<close> returns, what a structured \<^verbatim>\<open>requestBody\<close> or
  \<^verbatim>\<open>acceptedStatusCodes\<close> carries) are values of \<open>json\<close>. Numbers are the integers
  (status codes are integers; fractions and NaN are not modelled). Strings are byte
  strings.
\<close>

datatype json =
    JNull
  | JBool bool
  | JNum int
  | JStr string
  | JArr "json list"
  | JObj "(string \<times> json) list"

text \<open>
  The \<^verbatim>\<open>headers\<close> object of \<^verbatim>\<open>invoke\<close> is mutated in place and may be the very
  object the caller passed as \<^verbatim>\<open>params.requestHeaders\<close>, so objects live in a store and
  a value that is an object is a reference into it. An array is an object with elements;
  named properties hold JSON values.
\<close>

type_synonym addr = nat

datatype jsval =
    VUndefined
  | VNull
  | VBool bool
  | VNum int
  | VStr string
  | VRef addr

record jsobj =
  elems :: "json list option"
  props :: "string \<rightharpoonup> json"

definition empty_object :: jsobj where
  "empty_object = \<lparr>elems = None, props = Map.empty\<rparr>"

text \<open>A thrown value: an error object with its name and its (possibly missing) message.\<close>

datatype js_error = JsError (ename: string) (message: "string option")

definition new_Error :: "string \<Rightarrow> js_error" where
  "new_Error m = JsError ''Error'' (Some m)"

text \<open>
  Faults raised by the runtime itself rather than by a \<^verbatim>\<open>throw\<close> of the script (all are
  TypeErrors in JavaScript). The wording of their messages belongs to the engine, so the
  error object of a fault is supplied by the platform.
\<close>

datatype fault =
    CannotReadProperty jsval string
  | CannotCreateProperty jsval string
  | NotAFunction string

text \<open>What \<^verbatim>\<open>fetch(url, options)\<close> receives, and what it resolves to.\<close>

datatype headers_init = HeadersObject jsobj | HeadersValue jsval

record request =
  req_url :: string
  req_method :: string
  req_headers :: headers_init
  req_body :: "json option"

record response =
  r_status :: int
  r_statusText :: string
  r_text :: "js_error + string"
  r_json :: "js_error + json"

text \<open>
  The built-ins the script calls. \<open>fetch\<close> answers a request with a response or rejects;
  \<open>JSON_parse\<close> returns a tree or throws; \<open>btoa\<close> returns the Base64 text or throws (an
  InvalidCharacterError, on a character outside Latin-1); the others are total.
\<close>

record platform =
  fetch :: "request \<Rightarrow> js_error + response"
  JSON_parse :: "string \<Rightarrow> js_error + json"
  JSON_stringify :: "json \<Rightarrow> string"
  btoa :: "string \<Rightarrow> js_error + string"
  URLSearchParams_toString :: "(string \<times> string) list \<Rightarrow> string"
  Date_toISOString :: string
  fault_error :: "fault \<Rightarrow> js_error"

text \<open>
  The state threaded through an invocation: the object store, the next free address, and
  the requests handed to \<open>fetch\<close> so far, oldest first.
\<close>

record state =
  heap :: "addr \<Rightarrow> jsobj"
  fresh :: addr
  sent :: "request list"

definition alloc :: "jsobj \<Rightarrow> state \<Rightarrow> jsval \<times> state" where
  "alloc obj st = (VRef (fresh st), st\<lparr>heap := (heap st)(fresh st := obj), fresh := Suc (fresh st)\<rparr>)"

subsection \<open>Truthiness and conversions\<close>

fun truthy_json :: "json \<Rightarrow> bool" where
  "truthy_json JNull = False"
| "truthy_json (JBool b) = b"
| "truthy_json (JNum n) = (n \<noteq> 0)"
| "truthy_json (JStr s) = (s \<noteq> [])"
| "truthy_json (JArr xs) = True"
| "truthy_json (JObj kvs) = True"

fun truthy :: "jsval \<Rightarrow> bool" where
  "truthy VUndefined = False"
| "truthy VNull = False"
| "truthy (VBool b) = b"
| "truthy (VNum n) = (n \<noteq> 0)"
| "truthy (VStr s) = (s \<noteq> [])"
| "truthy (VRef a) = True"

text \<open>An optional value is \<^verbatim>\<open>undefined\<close> when absent.\<close>

fun truthyJ :: "json option \<Rightarrow> bool" where
  "truthyJ None = False"
| "truthyJ (Some j) = truthy_json j"

fun truthyS :: "string option \<Rightarrow> bool" where
  "truthyS None = False"
| "truthyS (Some s) = (s \<noteq> [])"

text \<open>The string behind an optional string; only read where the value is truthy.\<close>

fun str_of :: "string option \<Rightarrow> string" where
  "str_of None = []"
| "str_of (Some s) = s"

fun is_object_json :: "json \<Rightarrow> bool" where
  "is_object_json JNull = True"
| "is_object_json (JArr xs) = True"
| "is_object_json (JObj kvs) = True"
| "is_object_json j = False"

subsection \<open>String operations\<close>

definition startsWith :: "string \<Rightarrow> string \<Rightarrow> bool" where
  "startsWith s t = (take (length t) s = t)"

definition endsWith :: "string \<Rightarrow> string \<Rightarrow> bool" where
  "endsWith s t = (length t \<le> length s \<and> drop (length s - length t) s = t)"

fun str_includes :: "string \<Rightarrow> string \<Rightarrow> bool" where
  "str_includes [] t = (t = [])"
| "str_includes (c # cs) t = (if startsWith (c # cs) t then True else str_includes cs t)"

text \<open>\<^verbatim>\<open>toUpperCase\<close> on the ASCII letters, which is where HTTP method names live.\<close>

definition upper_char :: "char \<Rightarrow> char" where
  "upper_char c =
     (case map_of (zip ''abcdefghijklmnopqrstuvwxyz'' ''ABCDEFGHIJKLMNOPQRSTUVWXYZ'') c of
        None \<Rightarrow> c
      | Some u \<Rightarrow> u)"

definition toUpperCase :: "string \<Rightarrow> string" where
  "toUpperCase s = map upper_char s"

text \<open>Decimal rendering of a number inside a template literal.\<close>

fun nat_to_string :: "nat \<Rightarrow> string" where
  "nat_to_string n =
     (if n < 10 then [''0123456789'' ! n]
      else nat_to_string (n div 10) @ [''0123456789'' ! (n mod 10)])"

declare nat_to_string.simps [simp del]

definition int_to_string :: "int \<Rightarrow> string" where
  "int_to_string i = (if i < 0 then CHR ''-'' # nat_to_string (nat (- i)) else nat_to_string (nat i))"

fun join_comma :: "string list \<Rightarrow> string" where
  "join_comma [] = []"
| "join_comma [s] = s"
| "join_comma (s # t # ss) = s @ '','' @ join_comma (t # ss)"

text \<open>JavaScript's ToString on a JSON value, as a template literal applies it.\<close>

fun toString :: "json \<Rightarrow> string" where
  "toString JNull = ''null''"
| "toString (JBool b) = (if b then ''true'' else ''false'')"
| "toString (JNum n) = int_to_string n"
| "toString (JStr s) = s"
| "toString (JArr xs) = join_comma (map (\<lambda>x. if x = JNull then [] else toString x) xs)"
| "toString (JObj kvs) = ''[object Object]''"

text \<open>The message of a caught error inside a template literal.\<close>

definition message_text :: "js_error \<Rightarrow> string" where
  "message_text e = (case message e of None \<Rightarrow> ''undefined'' | Some m \<Rightarrow> m)"

subsection \<open>Objects in the store\<close>

text \<open>The own properties of a parsed JSON object: a repeated key keeps its last value.\<close>

definition props_of :: "(string \<times> json) list \<Rightarrow> (string \<rightharpoonup> json)" where
  "props_of kvs = map_of (rev kvs)"

fun of_json :: "json \<Rightarrow> state \<Rightarrow> jsval \<times> state" where
  "of_json JNull st = (VNull, st)"
| "of_json (JBool b) st = (VBool b, st)"
| "of_json (JNum n) st = (VNum n, st)"
| "of_json (JStr s) st = (VStr s, st)"
| "of_json (JArr xs) st = alloc \<lparr>elems = Some xs, props = Map.empty\<rparr> st"
| "of_json (JObj kvs) st = alloc \<lparr>elems = None, props = props_of kvs\<rparr> st"

text \<open>
  Reading a property: a fault on \<^verbatim>\<open>null\<close> and \<^verbatim>\<open>undefined\<close>, \<^verbatim>\<open>undefined\<close> on the other
  primitives (the script only reads header names, which no prototype defines), a lookup
  on an object.
\<close>

fun get_prop :: "platform \<Rightarrow> state \<Rightarrow> jsval \<Rightarrow> string \<Rightarrow> js_error + json option" where
  "get_prop pf st VUndefined k = Inl (fault_error pf (CannotReadProperty VUndefined k))"
| "get_prop pf st VNull k = Inl (fault_error pf (CannotReadProperty VNull k))"
| "get_prop pf st (VRef a) k = Inr (props (heap st a) k)"
| "get_prop pf st v k = Inr None"

text \<open>
  Writing a property: the script runs in strict mode, so a write to a primitive is a fault;
  a write to an object updates the store in place.
\<close>

fun set_prop :: "platform \<Rightarrow> state \<Rightarrow> jsval \<Rightarrow> string \<Rightarrow> json \<Rightarrow> (js_error + unit) \<times> state" where
  "set_prop pf st (VRef a) k v =
     (Inr (), st\<lparr>heap := (heap st)(a := (heap st a)\<lparr>props := (props (heap st a))(k \<mapsto> v)\<rparr>)\<rparr>)"
| "set_prop pf st w k v = (Inl (fault_error pf (CannotCreateProperty w k)), st)"

definition snapshot :: "state \<Rightarrow> jsval \<Rightarrow> headers_init" where
  "snapshot st v = (case v of VRef a \<Rightarrow> HeadersObject (heap st a) | _ \<Rightarrow> HeadersValue v)"

section \<open>Shared utilities of the bundle\<close>

record action_context =
  environment :: "string \<rightharpoonup> string"
  secrets :: "string \<rightharpoonup> string"

record params =
  "method" :: "string option"
  address :: "string option"
  addressSuffix :: "string option"
  requestHeaders :: jsval
  requestBody :: "json option"
  acceptedStatusCodes :: "json option"

definition SGNL_USER_AGENT :: string where
  "SGNL_USER_AGENT = ''SGNL-CAEP-Hub/2.0''"

record oauth_config =
  tokenUrl :: "string option"
  clientId :: "string option"
  clientSecret :: "string option"
  scope :: "string option"
  audience :: "string option"
  authStyle :: "string option"

definition response_ok :: "response \<Rightarrow> bool" where
  "response_ok r = (200 \<le> r_status r \<and> r_status r \<le> 299)"

text \<open>\<^verbatim>\<open>data.access_token\<close> on the parsed token response.\<close>

fun access_token_of :: "platform \<Rightarrow> json \<Rightarrow> js_error + json option" where
  "access_token_of pf JNull = Inl (fault_error pf (CannotReadProperty VNull ''access_token''))"
| "access_token_of pf (JObj kvs) = Inr (props_of kvs ''access_token'')"
| "access_token_of pf j = Inr None"

text \<open>
  The request of the token fetch: the form parameters, the headers and the place of the
  client credentials (in the form for \<^verbatim>\<open>InParams\<close>, in a Basic header otherwise, where
  \<open>btoa\<close> may throw).
\<close>

definition tokenRequest :: "platform \<Rightarrow> oauth_config \<Rightarrow> js_error + request" where
  "tokenRequest pf config =
     (let form = [(''grant_type'', ''client_credentials'')]
            @ (if truthyS (scope config) then [(''scope'', str_of (scope config))] else [])
            @ (if truthyS (audience config) then [(''audience'', str_of (audience config))] else []);
          hdrs = [''Content-Type'' \<mapsto> JStr ''application/x-www-form-urlencoded'',
                  ''Accept'' \<mapsto> JStr ''application/json'',
                  ''User-Agent'' \<mapsto> JStr SGNL_USER_AGENT]
      in if authStyle config = Some ''InParams'' then
           Inr \<lparr>req_url = str_of (tokenUrl config), req_method = ''POST'',
                req_headers = HeadersObject \<lparr>elems = None, props = hdrs\<rparr>,
                req_body = Some (JStr (URLSearchParams_toString pf
                  (form @ [(''client_id'', str_of (clientId config)),
                           (''client_secret'', str_of (clientSecret config))])))\<rparr>
         else
           (case btoa pf (str_of (clientId config) @ '':'' @ str_of (clientSecret config)) of
              Inl e \<Rightarrow> Inl e
            | Inr credentials \<Rightarrow>
                Inr \<lparr>req_url = str_of (tokenUrl config), req_method = ''POST'',
                     req_headers = HeadersObject
                       \<lparr>elems = None,
                        props = hdrs(''Authorization'' \<mapsto> JStr (''Basic '' @ credentials))\<rparr>,
                     req_body = Some (JStr (URLSearchParams_toString pf form))\<rparr>))"

definition getClientCredentialsToken ::
  "platform \<Rightarrow> oauth_config \<Rightarrow> state \<Rightarrow> (js_error + json) \<times> state" where
  "getClientCredentialsToken pf config st =
     (if \<not> truthyS (tokenUrl config) \<or> \<not> truthyS (clientId config) \<or> \<not> truthyS (clientSecret config)
      then (Inl (new_Error
        ''OAuth2 Client Credentials flow requires tokenUrl, clientId, and clientSecret''), st)
      else
       (case tokenRequest pf config of
          Inl e \<Rightarrow> (Inl e, st)
        | Inr req \<Rightarrow>
        let st1 = st\<lparr>sent := sent st @ [req]\<rparr>
        in case fetch pf req of
             Inl e \<Rightarrow> (Inl e, st1)
           | Inr resp \<Rightarrow>
               if \<not> response_ok resp then
                 (case (case r_json resp of
                          Inr errorData \<Rightarrow> Inr (JSON_stringify pf errorData)
                        | Inl _ \<Rightarrow> r_text resp) of
                    Inl e \<Rightarrow> (Inl e, st1)
                  | Inr errorText \<Rightarrow>
                      (Inl (new_Error (''OAuth2 token request failed: '' @ int_to_string (r_status resp)
                         @ '' '' @ r_statusText resp @ '' - '' @ errorText)), st1))
               else
                 (case r_json resp of
                    Inl e \<Rightarrow> (Inl e, st1)
                  | Inr d \<Rightarrow>
                      (case access_token_of pf d of
                         Inl e \<Rightarrow> (Inl e, st1)
                       | Inr None \<Rightarrow> (Inl (new_Error ''No access_token in OAuth2 response''), st1)
                       | Inr (Some tok) \<Rightarrow>
                           if \<not> truthy_json tok
                           then (Inl (new_Error ''No access_token in OAuth2 response''), st1)
                           else (Inr tok, st1)))))"

definition getAuthorizationHeader ::
  "platform \<Rightarrow> action_context \<Rightarrow> state \<Rightarrow> (js_error + string) \<times> state" where
  "getAuthorizationHeader pf ctx st =
     (let env = environment ctx; sec = secrets ctx in
      if truthyS (sec ''BEARER_AUTH_TOKEN'') then
        (let token = str_of (sec ''BEARER_AUTH_TOKEN'')
         in (Inr (if startsWith token ''Bearer '' then token else ''Bearer '' @ token), st))
      else if truthyS (sec ''BASIC_PASSWORD'') \<and> truthyS (sec ''BASIC_USERNAME'') then
        (case btoa pf (str_of (sec ''BASIC_USERNAME'') @ '':'' @ str_of (sec ''BASIC_PASSWORD'')) of
           Inl e \<Rightarrow> (Inl e, st)
         | Inr credentials \<Rightarrow> (Inr (''Basic '' @ credentials), st))
      else if truthyS (sec ''OAUTH2_AUTHORIZATION_CODE_ACCESS_TOKEN'') then
        (let token = str_of (sec ''OAUTH2_AUTHORIZATION_CODE_ACCESS_TOKEN'')
         in (Inr (if startsWith token ''Bearer '' then token else ''Bearer '' @ token), st))
      else if truthyS (sec ''OAUTH2_CLIENT_CREDENTIALS_CLIENT_SECRET'') then
        (let tokenUrl = env ''OAUTH2_CLIENT_CREDENTIALS_TOKEN_URL'';
             clientId = env ''OAUTH2_CLIENT_CREDENTIALS_CLIENT_ID'';
             clientSecret = sec ''OAUTH2_CLIENT_CREDENTIALS_CLIENT_SECRET''
         in if \<not> truthyS tokenUrl \<or> \<not> truthyS clientId then
              (Inl (new_Error
                ''OAuth2 Client Credentials flow requires TOKEN_URL and CLIENT_ID in env''), st)
            else
              (case getClientCredentialsToken pf
                      \<lparr>tokenUrl = tokenUrl, clientId = clientId, clientSecret = clientSecret,
                       scope = env ''OAUTH2_CLIENT_CREDENTIALS_SCOPE'',
                       audience = env ''OAUTH2_CLIENT_CREDENTIALS_AUDIENCE'',
                       authStyle = env ''OAUTH2_CLIENT_CREDENTIALS_AUTH_STYLE''\<rparr> st of
                 (Inl e, st1) \<Rightarrow> (Inl e, st1)
               | (Inr token, st1) \<Rightarrow> (Inr (''Bearer '' @ toString token), st1)))
      else
        (Inl (new_Error (''No authentication configured. Provide one of: ''
           @ ''BEARER_AUTH_TOKEN, BASIC_USERNAME/BASIC_PASSWORD, ''
           @ ''OAUTH2_AUTHORIZATION_CODE_ACCESS_TOKEN, or OAUTH2_CLIENT_CREDENTIALS_*'')), st))"

definition getBaseURL :: "params \<Rightarrow> action_context \<Rightarrow> js_error + string" where
  "getBaseURL ps ctx =
     (let env = environment ctx;
          addr = (if truthyS (address ps) then address ps else env ''ADDRESS'')
      in if \<not> truthyS addr then
           Inl (new_Error ''No URL specified. Provide address parameter or ADDRESS environment variable'')
         else
           Inr (if endsWith (str_of addr) ''/'' then butlast (str_of addr) else str_of addr))"

section \<open>The webhook action\<close>

subsection \<open>The HTTP executor\<close>

record webhook_result =
  statusCode :: int
  body :: string
  success :: json
  executedAt :: "string option"

definition methodsWithBody :: "string list" where
  "methodsWithBody = [''POST'', ''PUT'', ''PATCH'', ''DELETE'']"

text \<open>
  The first half of \<^verbatim>\<open>makeWebhookRequest\<close>: the \<^verbatim>\<open>options\<close> object, up to the call of
  \<open>fetch\<close>. \<^verbatim>\<open>options.headers\<close> is the caller's \<^verbatim>\<open>headers\<close> itself unless that is falsy.
\<close>

definition buildOptions ::
  "platform \<Rightarrow> string \<Rightarrow> string \<Rightarrow> jsval \<Rightarrow> json option \<Rightarrow> state \<Rightarrow> (js_error + request) \<times> state" where
  "buildOptions pf meth url headers reqBody st =
     (let options_method = toUpperCase meth;
          (options_headers, st1) = (if truthy headers then (headers, st) else alloc empty_object st)
      in if options_method \<in> set methodsWithBody \<and> truthyJ reqBody then
           (case get_prop pf st1 options_headers ''Content-Type'' of
              Inl e \<Rightarrow> (Inl e, st1)
            | Inr ct \<Rightarrow>
               (case (if truthyJ ct then Inr ct else get_prop pf st1 options_headers ''content-type'') of
                  Inl e \<Rightarrow> (Inl e, st1)
                | Inr ct' \<Rightarrow>
                   (case (if truthyJ ct' then (Inr (), st1)
                          else set_prop pf st1 options_headers ''Content-Type'' (JStr ''application/json'')) of
                      (Inl e, st2) \<Rightarrow> (Inl e, st2)
                    | (Inr u, st2) \<Rightarrow>
                       (Inr \<lparr>req_url = url, req_method = options_method,
                             req_headers = snapshot st2 options_headers, req_body = reqBody\<rparr>, st2))))
         else
           (Inr \<lparr>req_url = url, req_method = options_method,
                 req_headers = snapshot st1 options_headers, req_body = None\<rparr>, st1))"

text \<open>
  \<^verbatim>\<open>(status >= 200 && status < 300) || (acceptedStatusCodes && acceptedStatusCodes.includes(status))\<close>:
  the value of the expression, which is a boolean whenever \<^verbatim>\<open>acceptedStatusCodes\<close> is an
  array.
\<close>

definition isSuccess :: "platform \<Rightarrow> int \<Rightarrow> json \<Rightarrow> js_error + json" where
  "isSuccess pf s codes =
     (if 200 \<le> s \<and> s < 300 then Inr (JBool True)
      else if \<not> truthy_json codes then Inr codes
      else (case codes of
              JArr xs \<Rightarrow> Inr (JBool (JNum s \<in> set xs))
            | JStr str \<Rightarrow> Inr (JBool (str_includes str (int_to_string s)))
            | _ \<Rightarrow> Inl (fault_error pf (NotAFunction ''acceptedStatusCodes.includes''))))"

definition makeWebhookRequest ::
  "platform \<Rightarrow> string \<Rightarrow> string \<Rightarrow> jsval \<Rightarrow> json option \<Rightarrow> json option \<Rightarrow> state
     \<Rightarrow> (js_error + webhook_result) \<times> state" where
  "makeWebhookRequest pf meth url headers reqBody acceptedCodes st =
     (let codes = (case acceptedCodes of None \<Rightarrow> JArr [] | Some c \<Rightarrow> c) in
      case buildOptions pf meth url headers reqBody st of
        (Inl e, st1) \<Rightarrow> (Inl e, st1)
      | (Inr req, st1) \<Rightarrow>
         (let st2 = st1\<lparr>sent := sent st1 @ [req]\<rparr> in
          case fetch pf req of
            Inl e \<Rightarrow> (Inl e, st2)
          | Inr resp \<Rightarrow>
             (let responseBody = (case r_text resp of Inr t \<Rightarrow> t | Inl _ \<Rightarrow> [])
              in case isSuccess pf (r_status resp) codes of
                   Inl e \<Rightarrow> (Inl e, st2)
                 | Inr flag \<Rightarrow>
                    (Inr \<lparr>statusCode = r_status resp, body = responseBody, success = flag,
                          executedAt = None\<rparr>, st2))))"

subsection \<open>The steps of \<^verbatim>\<open>invoke\<close>\<close>

text \<open>
  \<^verbatim>\<open>invoke\<close> is a sequence of commented blocks; each block is one definition here, named
  after its comment, and \<open>invoke\<close> below runs them in the order of the source.
\<close>

text \<open>Build the URL using \<open>getBaseURL\<close>, then append the suffix if provided.\<close>

definition buildURL :: "params \<Rightarrow> action_context \<Rightarrow> js_error + string" where
  "buildURL ps ctx =
     (case getBaseURL ps ctx of
        Inl e \<Rightarrow>
          if truthyS (addressSuffix ps) then
            Inl (new_Error (''addressSuffix provided but no base address available. ''
              @ ''Provide either address parameter or ADDRESS environment variable''))
          else Inl e
      | Inr url \<Rightarrow>
          if truthyS (addressSuffix ps) then
            (let sfx = (if startsWith (str_of (addressSuffix ps)) ''/''
                        then str_of (addressSuffix ps) else ''/'' @ str_of (addressSuffix ps))
             in Inr (url @ sfx))
          else Inr url)"

text \<open>
  The same step in the earlier revision of the script, which composes the URL inline and
  does not go through \<open>getBaseURL\<close>.
\<close>

definition appendSuffix :: "string \<Rightarrow> string option \<Rightarrow> string" where
  "appendSuffix url sfx =
     (if truthyS sfx then
        (if endsWith url ''/'' \<and> startsWith (str_of sfx) ''/'' then url @ drop 1 (str_of sfx)
         else if \<not> endsWith url ''/'' \<and> \<not> startsWith (str_of sfx) ''/'' then url @ ''/'' @ str_of sfx
         else url @ str_of sfx)
      else url)"

definition determineURL :: "params \<Rightarrow> action_context \<Rightarrow> js_error + string" where
  "determineURL ps ctx =
     (if truthyS (address ps) then Inr (appendSuffix (str_of (address ps)) (addressSuffix ps))
      else if truthyS (environment ctx ''ADDRESS'') then
        Inr (appendSuffix (str_of (environment ctx ''ADDRESS'')) (addressSuffix ps))
      else if truthyS (addressSuffix ps) then
        Inl (new_Error (''addressSuffix provided but no base address available. ''
          @ ''Provide either address parameter or address environment variable''))
      else
        Inl (new_Error ''No URL specified. Provide either address parameter or address environment variable''))"

text \<open>Parse request headers if provided as JSON string.\<close>

definition parseRequestHeaders ::
  "platform \<Rightarrow> jsval \<Rightarrow> state \<Rightarrow> (js_error + jsval) \<times> state" where
  "parseRequestHeaders pf rh st =
     (let (headers, st0) = alloc empty_object st in
      if truthy rh then
        (case rh of
           VStr s \<Rightarrow>
             (case JSON_parse pf s of
                Inl e \<Rightarrow> (Inl (new_Error (''Failed to parse requestHeaders: '' @ message_text e)), st0)
              | Inr j \<Rightarrow> (let (v, st1) = of_json j st0 in (Inr v, st1)))
         | VRef a \<Rightarrow> (Inr (VRef a), st0)
         | _ \<Rightarrow> (Inr headers, st0))
      else (Inr headers, st0))"

text \<open>Add authentication if available in context and not already set in headers.\<close>

definition addAuthentication ::
  "platform \<Rightarrow> action_context \<Rightarrow> jsval \<Rightarrow> state \<Rightarrow> (js_error + unit) \<times> state" where
  "addAuthentication pf ctx headers st =
     (case get_prop pf st headers ''Authorization'' of
        Inl e \<Rightarrow> (Inl e, st)
      | Inr a \<Rightarrow>
         if truthyJ a then (Inr (), st)
         else
          (case get_prop pf st headers ''authorization'' of
             Inl e \<Rightarrow> (Inl e, st)
           | Inr b \<Rightarrow>
              if truthyJ b then (Inr (), st)
              else
               (case (case getAuthorizationHeader pf ctx st of
                        (Inl e, st1) \<Rightarrow> (Inl e, st1)
                      | (Inr authHeader, st1) \<Rightarrow>
                          set_prop pf st1 headers ''Authorization'' (JStr authHeader)) of
                  (Inr u, st2) \<Rightarrow> (Inr (), st2)
                | (Inl err, st2) \<Rightarrow>
                   (case message err of
                      None \<Rightarrow> (Inl (fault_error pf (CannotReadProperty VUndefined ''includes'')), st2)
                    | Some m \<Rightarrow>
                       if \<not> str_includes m ''No authentication configured'' then (Inl err, st2)
                       else (Inr (), st2)))))"

text \<open>Add User-Agent if not already set in custom headers.\<close>

definition addUserAgent :: "platform \<Rightarrow> jsval \<Rightarrow> state \<Rightarrow> (js_error + unit) \<times> state" where
  "addUserAgent pf headers st =
     (case get_prop pf st headers ''User-Agent'' of
        Inl e \<Rightarrow> (Inl e, st)
      | Inr a \<Rightarrow>
         if truthyJ a then (Inr (), st)
         else
          (case get_prop pf st headers ''user-agent'' of
             Inl e \<Rightarrow> (Inl e, st)
           | Inr b \<Rightarrow>
              if truthyJ b then (Inr (), st)
              else set_prop pf st headers ''User-Agent'' (JStr SGNL_USER_AGENT)))"

text \<open>Parse request body if provided: an object is stringified, anything else passes.\<close>

definition parseRequestBody :: "platform \<Rightarrow> json option \<Rightarrow> json option" where
  "parseRequestBody pf rb =
     (case rb of
        None \<Rightarrow> None
      | Some j \<Rightarrow> if truthy_json j \<and> is_object_json j then Some (JStr (JSON_stringify pf j)) else Some j)"

text \<open>Parse accepted status codes.\<close>

definition parseAcceptedStatusCodes :: "platform \<Rightarrow> json option \<Rightarrow> js_error + json" where
  "parseAcceptedStatusCodes pf ac =
     (if truthyJ ac then
        (case ac of
           Some (JArr xs) \<Rightarrow> Inr (JArr xs)
         | Some (JStr s) \<Rightarrow>
             (case JSON_parse pf s of
                Inl e \<Rightarrow> Inl (new_Error (''Failed to parse acceptedStatusCodes: '' @ message_text e))
              | Inr j \<Rightarrow> Inr j)
         | _ \<Rightarrow> Inr (JArr []))
      else Inr (JArr []))"

subsection \<open>The handlers\<close>

record action_result =
  status :: string
  data :: webhook_result

definition invoke ::
  "platform \<Rightarrow> params \<Rightarrow> action_context \<Rightarrow> state \<Rightarrow> (js_error + action_result) \<times> state" where
  "invoke pf ps ctx st =
     (if \<not> truthyS (method ps) then (Inl (new_Error ''method is required''), st)
      else
       (case buildURL ps ctx of
          Inl e \<Rightarrow> (Inl e, st)
        | Inr url \<Rightarrow>
         (case parseRequestHeaders pf (requestHeaders ps) st of
            (Inl e, st1) \<Rightarrow> (Inl e, st1)
          | (Inr headers, st1) \<Rightarrow>
           (case addAuthentication pf ctx headers st1 of
              (Inl e, st2) \<Rightarrow> (Inl e, st2)
            | (Inr u, st2) \<Rightarrow>
             (case addUserAgent pf headers st2 of
                (Inl e, st3) \<Rightarrow> (Inl e, st3)
              | (Inr u', st3) \<Rightarrow>
               (let reqBody = parseRequestBody pf (requestBody ps) in
                case parseAcceptedStatusCodes pf (acceptedStatusCodes ps) of
                  Inl e \<Rightarrow> (Inl e, st3)
                | Inr codes \<Rightarrow>
                 (case makeWebhookRequest pf (str_of (method ps)) url headers reqBody (Some codes) st3 of
                    (Inl e, st4) \<Rightarrow> (Inl e, st4)
                  | (Inr result, st4) \<Rightarrow>
                     if \<not> truthy_json (success result) then
                       (Inl (new_Error (''Request failed with status code: ''
                          @ int_to_string (statusCode result) @ ''. Response body: ''
                          @ body result @ ''.'')), st4)
                     else
                       (Inr \<lparr>status = ''success'',
                             data = result\<lparr>executedAt := Some (Date_toISOString pf)\<rparr>\<rparr>, st4))))))))"

text \<open>
  The earlier revision of the script (\<^verbatim>\<open>src/script.mjs\<close>) is lenient: a response outside
  the success range does not fail the invocation, the flag is reported in the result. Its
  authentication block knows the bearer token only and calls no resolver; its URL is
  composed inline (\<open>determineURL\<close>); it adds no User-Agent. The other blocks are the same.
\<close>

definition addBearerToken ::
  "platform \<Rightarrow> action_context \<Rightarrow> jsval \<Rightarrow> state \<Rightarrow> (js_error + unit) \<times> state" where
  "addBearerToken pf ctx headers st =
     (if truthyS (secrets ctx ''BEARER_AUTH_TOKEN'') then
        (case get_prop pf st headers ''Authorization'' of
           Inl e \<Rightarrow> (Inl e, st)
         | Inr a \<Rightarrow>
            if truthyJ a then (Inr (), st)
            else
             (case get_prop pf st headers ''authorization'' of
                Inl e \<Rightarrow> (Inl e, st)
              | Inr b \<Rightarrow>
                 if truthyJ b then (Inr (), st)
                 else set_prop pf st headers ''Authorization''
                        (JStr (''Bearer '' @ str_of (secrets ctx ''BEARER_AUTH_TOKEN'')))))
      else (Inr (), st))"

definition invoke_lenient ::
  "platform \<Rightarrow> params \<Rightarrow> action_context \<Rightarrow> state \<Rightarrow> (js_error + action_result) \<times> state" where
  "invoke_lenient pf ps ctx st =
     (if \<not> truthyS (method ps) then (Inl (new_Error ''method is required''), st)
      else
       (case determineURL ps ctx of
          Inl e \<Rightarrow> (Inl e, st)
        | Inr url \<Rightarrow>
         (case parseRequestHeaders pf (requestHeaders ps) st of
            (Inl e, st1) \<Rightarrow> (Inl e, st1)
          | (Inr headers, st1) \<Rightarrow>
           (case addBearerToken pf ctx headers st1 of
              (Inl e, st2) \<Rightarrow> (Inl e, st2)
            | (Inr u, st2) \<Rightarrow>
             (let reqBody = parseRequestBody pf (requestBody ps) in
              case parseAcceptedStatusCodes pf (acceptedStatusCodes ps) of
                Inl e \<Rightarrow> (Inl e, st2)
              | Inr codes \<Rightarrow>
               (case makeWebhookRequest pf (str_of (method ps)) url headers reqBody (Some codes) st2 of
                  (Inl e, st3) \<Rightarrow> (Inl e, st3)
                | (Inr result, st3) \<Rightarrow>
                   (Inr \<lparr>status = ''success'',
                         data = result\<lparr>executedAt := Some (Date_toISOString pf)\<rparr>\<rparr>, st3)))))))"

text \<open>The error handler: a retry request, or the error thrown again.\<close>

datatype handler_result = Retry_requested | Halted

definition network_error :: "string \<Rightarrow> bool" where
  "network_error m =
     (str_includes m ''ECONNREFUSED'' \<or> str_includes m ''ETIMEDOUT'' \<or> str_includes m ''ENOTFOUND''
      \<or> str_includes m ''fetch failed'' \<or> str_includes m ''network'')"

definition validation_error :: "string \<Rightarrow> bool" where
  "validation_error m =
     (str_includes m ''is required'' \<or> str_includes m ''Failed to parse''
      \<or> str_includes m ''No URL specified'')"

definition error_handler :: "js_error \<Rightarrow> js_error + handler_result" where
  "error_handler err =
     (if truthyS (message err) \<and> network_error (str_of (message err)) then Inr Retry_requested
      else if truthyS (message err) \<and> validation_error (str_of (message err)) then Inl err
      else Inr Retry_requested)"

definition halt :: "handler_result" where
  "halt = Halted"

section \<open>Vocabulary of the specification\<close>

text \<open>
  The notions the properties below are stated with. None of them is used by the
  definitions of the program above.
\<close>

fun is_array :: "json \<Rightarrow> bool" where
  "is_array (JArr xs) = True"
| "is_array j = False"

fun is_string :: "json \<Rightarrow> bool" where
  "is_string (JStr s) = True"
| "is_string j = False"

text \<open>The Bearer-prefix normalisation: a token that already starts with the prefix is kept.\<close>

definition bearer_value :: "string \<Rightarrow> string" where
  "bearer_value token = (if startsWith token ''Bearer '' then token else ''Bearer '' @ token)"

text \<open>The base address the composer chooses, and the two strings it joins.\<close>

definition chosen_base :: "params \<Rightarrow> action_context \<Rightarrow> string option" where
  "chosen_base ps ctx = (if truthyS (address ps) then address ps else environment ctx ''ADDRESS'')"

definition stripTrailingSlash :: "string \<Rightarrow> string" where
  "stripTrailingSlash b = (if endsWith b ''/'' then butlast b else b)"

definition stripLeadingSlash :: "string \<Rightarrow> string" where
  "stripLeadingSlash s = (if startsWith s ''/'' then drop 1 s else s)"

text \<open>The headers the pipeline computes.\<close>

definition computed_headers :: "string set" where
  "computed_headers = {''Authorization'', ''User-Agent'', ''Content-Type''}"

text \<open>
  \<open>adds_only a K st st'\<close>: between the two states nothing is allocated, no object other
  than the one at \<open>a\<close> changes, and of that object only properties named in \<open>K\<close> that
  held no truthy value change.
\<close>

definition adds_only :: "addr \<Rightarrow> string set \<Rightarrow> state \<Rightarrow> state \<Rightarrow> bool" where
  "adds_only a K st st' \<longleftrightarrow>
     fresh st' = fresh st \<and>
     (\<forall>a'. a' \<noteq> a \<longrightarrow> heap st' a' = heap st a') \<and>
     elems (heap st' a) = elems (heap st a) \<and>
     (\<forall>k. k \<notin> K \<or> truthyJ (props (heap st a) k)
          \<longrightarrow> props (heap st' a) k = props (heap st a) k)"

text \<open>The substrings the error handler looks for.\<close>

definition network_markers :: "string list" where
  "network_markers = [''ECONNREFUSED'', ''ETIMEDOUT'', ''ENOTFOUND'', ''fetch failed'', ''network'']"

definition validation_markers :: "string list" where
  "validation_markers = [''is required'', ''Failed to parse'', ''No URL specified'']"

definition contains_any :: "string \<Rightarrow> string list \<Rightarrow> bool" where
  "contains_any m ks = (\<exists>k \<in> set ks. str_includes m k)"

section \<open>Test doubles\<close>

text \<open>
  The repository's test-suite replaces \<open>fetch\<close> by a mock that resolves to a fixed
  response. The same double serves here to run the definitions on concrete inputs:
  \<open>fetch\<close> answers every request with the given response, and \<open>JSON_parse\<close> knows the
  few documents the examples use and rejects every other string, the empty one included.
\<close>

definition mock_JSON_parse :: "string \<Rightarrow> js_error + json" where
  \<open>mock_JSON_parse s =
     (case map_of [(''{"X-API-Key":"key123"}'', JObj [(''X-API-Key'', JStr ''key123'')]),
                   (''[404, 410]'', JArr [JNum 404, JNum 410])] s of
        Some j \<Rightarrow> Inr j
      | None \<Rightarrow> Inl (JsError ''SyntaxError'' (Some ''Unexpected end of JSON input'')))\<close>

definition mock_platform :: "response \<Rightarrow> platform" where
  "mock_platform resp =
     \<lparr>fetch = (\<lambda>req. Inr resp),
      JSON_parse = mock_JSON_parse,
      JSON_stringify = (\<lambda>j. ''{}''),
      btoa = (\<lambda>s. Inr s),
      URLSearchParams_toString = (\<lambda>kvs. concat (map (\<lambda>(k, v). k @ ''='' @ v @ ''&'') kvs)),
      Date_toISOString = ''2026-01-01T00:00:00.000Z'',
      fault_error = (\<lambda>f. JsError ''TypeError'' (Some ''TypeError''))\<rparr>"

definition mock_response :: "int \<Rightarrow> string \<Rightarrow> response" where
  "mock_response s t =
     \<lparr>r_status = s, r_statusText = [], r_text = Inr t,
      r_json = Inl (JsError ''SyntaxError'' (Some ''Unexpected token''))\<rparr>"

text \<open>A store in which every address holds the empty object, and nothing sent yet.\<close>

definition init_state :: state where
  "init_state = \<lparr>heap = (\<lambda>a. empty_object), fresh = 0, sent = []\<rparr>"

text \<open>
  A store in which address \<open>0\<close> holds a headers mapping made by the caller, as when
  \<^verbatim>\<open>params.requestHeaders\<close> is an object.
\<close>

definition caller_state :: "(string \<rightharpoonup> json) \<Rightarrow> state" where
  "caller_state hs =
     \<lparr>heap = (\<lambda>a. empty_object)(0 := \<lparr>elems = None, props = hs\<rparr>), fresh = 1, sent = []\<rparr>"

definition no_secrets :: action_context where
  "no_secrets = \<lparr>environment = Map.empty, secrets = Map.empty\<rparr>"

definition bearer_context :: action_context where
  "bearer_context = \<lparr>environment = Map.empty, secrets = [''BEARER_AUTH_TOKEN'' \<mapsto> ''test-token'']\<rparr>"

definition both_context :: action_context where
  "both_context =
     \<lparr>environment = Map.empty,
      secrets = [''BEARER_AUTH_TOKEN'' \<mapsto> ''test-token'', ''BASIC_USERNAME'' \<mapsto> ''user'',
                 ''BASIC_PASSWORD'' \<mapsto> ''pass'']\<rparr>"

definition mock_params :: "string \<Rightarrow> string \<Rightarrow> jsval \<Rightarrow> params" where
  "mock_params m a rh =
     \<lparr>method = Some m, address = Some a, addressSuffix = None, requestHeaders = rh,
      requestBody = None, acceptedStatusCodes = None\<rparr>"

definition suffix_params :: "string \<Rightarrow> string \<Rightarrow> params" where
  "suffix_params a sfx =
     \<lparr>method = Some ''GET'', address = Some a, addressSuffix = Some sfx,
      requestHeaders = VUndefined, requestBody = None, acceptedStatusCodes = None\<rparr>"

text \<open>
  Runs against the double, each answered with \<^verbatim>\<open>200 OK\<close> unless said otherwise: an
  object as headers with a bearer token configured, in both revisions of the script; the
  caller's header in upper case; the empty string as headers, first as the parameter stands
  and then with the parameter left out; and a number as accepted status codes, answered
  with \<^verbatim>\<open>404 Not Found\<close>.
\<close>

definition run_object_headers :: "(js_error + action_result) \<times> state" where
  "run_object_headers =
     invoke (mock_platform (mock_response 200 ''OK''))
       (mock_params ''PUT'' ''https://api.example.com/resource'' (VRef 0)) bearer_context
       (caller_state [''X-API-Key'' \<mapsto> JStr ''key123''])"

definition run_object_headers_lenient :: "(js_error + action_result) \<times> state" where
  "run_object_headers_lenient =
     invoke_lenient (mock_platform (mock_response 200 ''OK''))
       (mock_params ''PUT'' ''https://api.example.com/resource'' (VRef 0)) bearer_context
       (caller_state [''X-API-Key'' \<mapsto> JStr ''key123''])"

definition run_number_as_codes :: "(js_error + action_result) \<times> state" where
  "run_number_as_codes =
     invoke_lenient (mock_platform (mock_response 404 ''Not Found''))
       ((mock_params ''GET'' ''https://api.example.com'' VUndefined)
          \<lparr>acceptedStatusCodes := Some (JNum 404)\<rparr>) no_secrets init_state"

definition run_uppercase_authorization :: "(js_error + action_result) \<times> state" where
  "run_uppercase_authorization =
     invoke (mock_platform (mock_response 200 ''OK''))
       (mock_params ''GET'' ''https://api.example.com'' (VRef 0)) bearer_context
       (caller_state [''AUTHORIZATION'' \<mapsto> JStr ''Custom auth''])"


section \<open>Running the definitions\<close>

lemmas run_defs = invoke_def invoke_lenient_def determineURL_def appendSuffix_def
  addBearerToken_def buildURL_def getBaseURL_def parseRequestHeaders_def
  addAuthentication_def addUserAgent_def parseRequestBody_def parseAcceptedStatusCodes_def
  makeWebhookRequest_def buildOptions_def isSuccess_def getAuthorizationHeader_def alloc_def
  empty_object_def snapshot_def toUpperCase_def upper_char_def methodsWithBody_def
  startsWith_def endsWith_def mock_platform_def mock_response_def mock_JSON_parse_def
  init_state_def caller_state_def new_Error_def SGNL_USER_AGENT_def Let_def message_text_def
  props_of_def no_secrets_def bearer_context_def mock_params_def

section \<open>Properties of the HTTP executor\<close>

lemma buildOptions_GET:
  "buildOptions (mock_platform r) ''GET'' u (VRef 0) None init_state =
     (Inr \<lparr>req_url = u, req_method = ''GET'', req_headers = HeadersObject empty_object,
           req_body = None\<rparr>, init_state)"
  by (simp add: buildOptions_def toUpperCase_def upper_char_def methodsWithBody_def snapshot_def
      init_state_def)

text \<open>
  C1. Once the request is built and \<open>fetch\<close> has resolved to a response, the executor
  always returns a result, whatever the status code, and for an array of accepted status
  codes the success flag of that result is the boolean that is true exactly when the
  status \<open>s\<close> satisfies \<open>200 \<le> s < 300\<close> or \<open>s\<close> is an element of the array.
\<close>

theorem makeWebhookRequest_success_flag:
  assumes "buildOptions pf meth url headers reqBody st = (Inr req, st1)"
    and "fetch pf req = Inr resp"
  shows "makeWebhookRequest pf meth url headers reqBody (Some (JArr codes)) st =
           (Inr \<lparr>statusCode = r_status resp,
                 body = (case r_text resp of Inr t \<Rightarrow> t | Inl e \<Rightarrow> []),
                 success = JBool (200 \<le> r_status resp \<and> r_status resp < 300
                                   \<or> JNum (r_status resp) \<in> set codes),
                 executedAt = None\<rparr>,
            st1\<lparr>sent := sent st1 @ [req]\<rparr>)"
  using assms by (auto simp: makeWebhookRequest_def isSuccess_def Let_def)

theorem makeWebhookRequest_success_flag_witness:
  "fst (makeWebhookRequest (mock_platform (mock_response 404 ''Not Found'')) ''GET''
      ''https://api.example.com/user/999'' (VRef 0) None (Some (JArr [JNum 404, JNum 410]))
      init_state)
    = Inr \<lparr>statusCode = 404, body = ''Not Found'', success = JBool True, executedAt = None\<rparr>"
  using makeWebhookRequest_success_flag [OF buildOptions_GET,
      of "mock_response 404 ''Not Found''" _ "mock_response 404 ''Not Found''"
         "[JNum 404, JNum 410]"]
  by (simp add: mock_platform_def mock_response_def)

lemma buildOptions_cases:
  assumes "buildOptions pf meth url headers reqBody st = (Inr req, st')"
  shows "req_method req = toUpperCase meth \<and> req_url req = url \<and>
         (req_body req = None \<or>
          (req_body req = reqBody \<and> truthyJ reqBody \<and> toUpperCase meth \<in> set methodsWithBody))"
  using assms
  by (auto simp: buildOptions_def Let_def split: if_splits sum.splits prod.splits)

lemma set_prop_sent: "set_prop pf st v k x = (r, st') \<Longrightarrow> sent st' = sent st"
  by (cases v) auto

lemma buildOptions_sent:
  assumes "buildOptions pf meth url headers reqBody st = (r, st')"
  shows "sent st' = sent st"
  using assms
  by (auto simp: buildOptions_def Let_def alloc_def split: if_splits sum.splits prod.splits
      dest: set_prop_sent)

text \<open>
  C4. Whatever \<open>makeWebhookRequest\<close> returns, it hands at most one request to \<open>fetch\<close>,
  with the uppercased method; that request carries a body only when the uppercased method
  is one of POST, PUT, PATCH, DELETE (and then it is the supplied body), and for GET, HEAD
  and OPTIONS it carries none, even when a body was supplied.
\<close>

theorem body_only_for_methodsWithBody:
  assumes "makeWebhookRequest pf meth url headers reqBody codes st = (r, st')"
  shows "sent st' = sent st \<or>
         (\<exists>req. sent st' = sent st @ [req] \<and> req_method req = toUpperCase meth \<and>
            (req_body req \<noteq> None \<longrightarrow>
               toUpperCase meth \<in> set [''POST'', ''PUT'', ''PATCH'', ''DELETE''] \<and> req_body req = reqBody) \<and>
            (toUpperCase meth \<in> set [''GET'', ''HEAD'', ''OPTIONS''] \<longrightarrow> req_body req = None))"
proof (cases "buildOptions pf meth url headers reqBody st")
  case (Pair b st1)
  show ?thesis
  proof (cases b)
    case (Inl e)
    with Pair assms buildOptions_sent [of pf meth url headers reqBody st b st1] show ?thesis
      by (simp add: makeWebhookRequest_def)
  next
    case (Inr req)
    with Pair have bo: "buildOptions pf meth url headers reqBody st = (Inr req, st1)" by simp
    have st1: "sent st1 = sent st" using bo by (rule buildOptions_sent)
    from bo assms have "sent st' = sent st1 @ [req]"
      by (auto simp: makeWebhookRequest_def Let_def split: sum.splits)
    with st1 buildOptions_cases [OF bo] show ?thesis
      by (auto simp: methodsWithBody_def)
  qed
qed


theorem body_only_for_methodsWithBody_witness:
  "map req_body (sent (snd (makeWebhookRequest (mock_platform (mock_response 200 ''OK'')) ''get''
      ''https://api.example.com/data'' (VRef 0) (Some (JStr ''should be ignored'')) None init_state)))
     = [None]"
  using body_only_for_methodsWithBody [OF prod.collapse [symmetric],
      of "mock_platform (mock_response 200 ''OK'')" "''get''" "''https://api.example.com/data''"
         "VRef 0" "Some (JStr ''should be ignored'')" None init_state]
  by (simp add: makeWebhookRequest_def buildOptions_def methodsWithBody_def mock_platform_def
      toUpperCase_def upper_char_def snapshot_def init_state_def isSuccess_def mock_response_def)

text \<open>
  C9. For a body-bearing method and the empty string as request body, the request that is
  built carries no body and no Content-Type is injected: the headers are the ones
  supplied, read from an unchanged store (a fresh empty object when none were supplied).
  The body step of \<open>invoke\<close> passes the empty string on as it is.
\<close>

theorem empty_body_not_attached:
  assumes "toUpperCase meth \<in> set methodsWithBody"
  shows "parseRequestBody pf (Some (JStr [])) = Some (JStr []) \<and>
         buildOptions pf meth url headers (Some (JStr [])) st =
           (let (options_headers, st1) = (if truthy headers then (headers, st) else alloc empty_object st)
            in (Inr \<lparr>req_url = url, req_method = toUpperCase meth,
                      req_headers = snapshot st1 options_headers, req_body = None\<rparr>, st1)) \<and>
         (truthy headers \<longrightarrow> snd (buildOptions pf meth url headers (Some (JStr [])) st) = st)"
  by (simp add: parseRequestBody_def buildOptions_def Let_def split: prod.splits)

theorem empty_body_not_attached_witness:
  "buildOptions (mock_platform (mock_response 200 ''OK'')) ''post'' ''https://api.example.com/endpoint''
      (VRef 0) (Some (JStr [])) init_state =
     (Inr \<lparr>req_url = ''https://api.example.com/endpoint'', req_method = ''POST'',
           req_headers = HeadersObject empty_object, req_body = None\<rparr>, init_state)"
proof -
  have m: "toUpperCase ''post'' \<in> set methodsWithBody"
    by (simp add: toUpperCase_def upper_char_def methodsWithBody_def)
  show ?thesis
    using empty_body_not_attached [OF m, of "mock_platform (mock_response 200 ''OK'')"
        "''https://api.example.com/endpoint''" "VRef 0" init_state]
    by (simp add: toUpperCase_def upper_char_def snapshot_def init_state_def)
qed

text \<open>
  C10. A truthy \<^verbatim>\<open>acceptedStatusCodes\<close> that is neither an array nor a string raises no
  error and is not used. The step yields the empty array, and both revisions of \<open>invoke\<close>
  behave exactly as if the parameter were absent. In the lenient script, whenever the
  other steps go through and \<open>fetch\<close> resolves to a response, the invocation does not
  fail, whatever the status: it returns the success envelope, whose flag is true exactly
  for the statuses from 200 to 299.
\<close>

theorem acceptedStatusCodes_other_type_ignored:
  assumes v: "truthy_json v" "\<not> is_array v" "\<not> is_string v"
  shows "parseAcceptedStatusCodes pf (Some v) = Inr (JArr []) \<and>
         invoke_lenient pf (ps\<lparr>acceptedStatusCodes := Some v\<rparr>) ctx st
           = invoke_lenient pf (ps\<lparr>acceptedStatusCodes := None\<rparr>) ctx st \<and>
         invoke pf (ps\<lparr>acceptedStatusCodes := Some v\<rparr>) ctx st
           = invoke pf (ps\<lparr>acceptedStatusCodes := None\<rparr>) ctx st \<and>
         isSuccess pf s (JArr []) = Inr (JBool (200 \<le> s \<and> s < 300)) \<and>
         (\<forall>url headers st1 st2 req st3 resp.
            truthyS (method ps) \<and> determineURL ps ctx = Inr url \<and>
            parseRequestHeaders pf (requestHeaders ps) st = (Inr headers, st1) \<and>
            addBearerToken pf ctx headers st1 = (Inr (), st2) \<and>
            buildOptions pf (str_of (method ps)) url headers
              (parseRequestBody pf (requestBody ps)) st2 = (Inr req, st3) \<and>
            fetch pf req = Inr resp
            \<longrightarrow> invoke_lenient pf (ps\<lparr>acceptedStatusCodes := Some v\<rparr>) ctx st =
                  (Inr \<lparr>status = ''success'',
                        data = \<lparr>statusCode = r_status resp,
                                body = (case r_text resp of Inr t \<Rightarrow> t | Inl e \<Rightarrow> []),
                                success = JBool (200 \<le> r_status resp \<and> r_status resp < 300),
                                executedAt = Some (Date_toISOString pf)\<rparr>\<rparr>,
                   st3\<lparr>sent := sent st3 @ [req]\<rparr>))"
proof -
  have p: "parseAcceptedStatusCodes pf (Some v) = Inr (JArr [])"
    using v by (cases v) (simp_all add: parseAcceptedStatusCodes_def)
  have q: "parseAcceptedStatusCodes pf None = Inr (JArr [])"
    by (simp add: parseAcceptedStatusCodes_def)
  have u: "buildURL (ps\<lparr>acceptedStatusCodes := Some v\<rparr>) ctx = buildURL (ps\<lparr>acceptedStatusCodes := None\<rparr>) ctx"
    by (simp add: buildURL_def getBaseURL_def Let_def split: sum.splits)
  have d: "determineURL (ps\<lparr>acceptedStatusCodes := x\<rparr>) ctx = determineURL ps ctx" for x
    by (simp add: determineURL_def)
  have i: "invoke pf (ps\<lparr>acceptedStatusCodes := Some v\<rparr>) ctx st
           = invoke pf (ps\<lparr>acceptedStatusCodes := None\<rparr>) ctx st"
    by (simp add: p q u invoke_def Let_def cong: sum.case_cong prod.case_cong)
  have l: "invoke_lenient pf (ps\<lparr>acceptedStatusCodes := Some v\<rparr>) ctx st
           = invoke_lenient pf (ps\<lparr>acceptedStatusCodes := None\<rparr>) ctx st"
    by (simp add: p q d invoke_lenient_def Let_def cong: sum.case_cong prod.case_cong)
  have s: "isSuccess pf s (JArr []) = Inr (JBool (200 \<le> s \<and> s < 300))"
    by (simp add: isSuccess_def)
  have r: "invoke_lenient pf (ps\<lparr>acceptedStatusCodes := Some v\<rparr>) ctx st =
                  (Inr \<lparr>status = ''success'',
                        data = \<lparr>statusCode = r_status resp,
                                body = (case r_text resp of Inr t \<Rightarrow> t | Inl e \<Rightarrow> []),
                                success = JBool (200 \<le> r_status resp \<and> r_status resp < 300),
                                executedAt = Some (Date_toISOString pf)\<rparr>\<rparr>,
                   st3\<lparr>sent := sent st3 @ [req]\<rparr>)"
    if h: "truthyS (method ps)" "determineURL ps ctx = Inr url"
       "parseRequestHeaders pf (requestHeaders ps) st = (Inr headers, st1)"
       "addBearerToken pf ctx headers st1 = (Inr (), st2)"
       "buildOptions pf (str_of (method ps)) url headers
              (parseRequestBody pf (requestBody ps)) st2 = (Inr req, st3)"
       "fetch pf req = Inr resp"
    for url headers st1 st2 req st3 resp
  proof -
    have mk: "makeWebhookRequest pf (str_of (method ps)) url headers
        (parseRequestBody pf (requestBody ps)) (Some (JArr [])) st2 =
           (Inr \<lparr>statusCode = r_status resp,
                 body = (case r_text resp of Inr t \<Rightarrow> t | Inl e \<Rightarrow> []),
                 success = JBool (200 \<le> r_status resp \<and> r_status resp < 300),
                 executedAt = None\<rparr>,
            st3\<lparr>sent := sent st3 @ [req]\<rparr>)"
      using h(5,6) by (auto simp: makeWebhookRequest_def isSuccess_def Let_def)
    show ?thesis
      using h(1-4) by (simp add: invoke_lenient_def d p mk)
  qed
  from p l i s r show ?thesis by blast
qed

theorem acceptedStatusCodes_other_type_ignored_witness:
  "fst run_number_as_codes =
     Inr \<lparr>status = ''success'',
          data = \<lparr>statusCode = 404, body = ''Not Found'', success = JBool False,
                  executedAt = Some ''2026-01-01T00:00:00.000Z''\<rparr>\<rparr>"
  using acceptedStatusCodes_other_type_ignored [of "JNum 404"
      "mock_platform (mock_response 404 ''Not Found'')"
      "mock_params ''GET'' ''https://api.example.com'' VUndefined" no_secrets init_state 404]
  by (simp add: run_number_as_codes_def run_defs)

section \<open>Properties of the authorization resolver\<close>

text \<open>
  C3. The resolver tries the four mechanisms in the order bearer token, basic
  username and password, pre-issued authorization-code token, client credentials, where a
  secret is present when it is a non-empty string. The first mechanism whose secrets are
  present fixes the outcome, which is a function of that mechanism's inputs alone: a
  present bearer token gives its Bearer value whatever the other secrets are; basic
  credentials give the Basic value of their encoding, or the error of \<open>btoa\<close> when they
  cannot be encoded, and no later mechanism is tried; the first three mechanisms leave
  the state untouched (no request is sent). With no mechanism present the resolver fails
  with the no-authentication-configured error.
\<close>

theorem getAuthorizationHeader_precedence:
  fixes ctx :: action_context
  defines "bearer \<equiv> secrets ctx ''BEARER_AUTH_TOKEN''"
    and "user \<equiv> secrets ctx ''BASIC_USERNAME''"
    and "pass \<equiv> secrets ctx ''BASIC_PASSWORD''"
    and "code_token \<equiv> secrets ctx ''OAUTH2_AUTHORIZATION_CODE_ACCESS_TOKEN''"
    and "client_secret \<equiv> secrets ctx ''OAUTH2_CLIENT_CREDENTIALS_CLIENT_SECRET''"
  shows
    "(truthyS bearer \<longrightarrow>
        getAuthorizationHeader pf ctx st = (Inr (bearer_value (str_of bearer)), st)) \<and>
     (\<not> truthyS bearer \<and> truthyS user \<and> truthyS pass \<longrightarrow>
        getAuthorizationHeader pf ctx st
          = (case btoa pf (str_of user @ '':'' @ str_of pass) of
               Inl e \<Rightarrow> (Inl e, st)
             | Inr credentials \<Rightarrow> (Inr (''Basic '' @ credentials), st))) \<and>
     (\<not> truthyS bearer \<and> \<not> (truthyS user \<and> truthyS pass) \<and> truthyS code_token \<longrightarrow>
        getAuthorizationHeader pf ctx st = (Inr (bearer_value (str_of code_token)), st)) \<and>
     (\<not> truthyS bearer \<and> \<not> (truthyS user \<and> truthyS pass) \<and> \<not> truthyS code_token
        \<and> truthyS client_secret \<longrightarrow>
        getAuthorizationHeader pf ctx st =
          (if \<not> truthyS (environment ctx ''OAUTH2_CLIENT_CREDENTIALS_TOKEN_URL'')
              \<or> \<not> truthyS (environment ctx ''OAUTH2_CLIENT_CREDENTIALS_CLIENT_ID'')
           then (Inl (new_Error ''OAuth2 Client Credentials flow requires TOKEN_URL and CLIENT_ID in env''), st)
           else (case getClientCredentialsToken pf
                        \<lparr>tokenUrl = environment ctx ''OAUTH2_CLIENT_CREDENTIALS_TOKEN_URL'',
                         clientId = environment ctx ''OAUTH2_CLIENT_CREDENTIALS_CLIENT_ID'',
                         clientSecret = client_secret,
                         scope = environment ctx ''OAUTH2_CLIENT_CREDENTIALS_SCOPE'',
                         audience = environment ctx ''OAUTH2_CLIENT_CREDENTIALS_AUDIENCE'',
                         authStyle = environment ctx ''OAUTH2_CLIENT_CREDENTIALS_AUTH_STYLE''\<rparr> st of
                   (Inl e, st1) \<Rightarrow> (Inl e, st1)
                 | (Inr token, st1) \<Rightarrow> (Inr (''Bearer '' @ toString token), st1)))) \<and>
     (\<not> truthyS bearer \<and> \<not> (truthyS user \<and> truthyS pass) \<and> \<not> truthyS code_token
        \<and> \<not> truthyS client_secret \<longrightarrow>
        (\<exists>m. getAuthorizationHeader pf ctx st = (Inl (new_Error m), st)
             \<and> startsWith m ''No authentication configured''))"
  unfolding bearer_def user_def pass_def code_token_def client_secret_def
  by (auto simp: getAuthorizationHeader_def Let_def bearer_value_def startsWith_def)

theorem getAuthorizationHeader_precedence_witness:
  "getAuthorizationHeader (mock_platform (mock_response 200 ''OK'')) both_context init_state
     = (Inr ''Bearer test-token'', init_state)"
  using getAuthorizationHeader_precedence [of both_context "mock_platform (mock_response 200 ''OK'')" init_state]
  by (simp add: both_context_def bearer_value_def startsWith_def)

section \<open>What an invocation writes\<close>

lemma adds_only_refl: "adds_only a K st st"
  by (simp add: adds_only_def)

lemma adds_only_heap: "heap st' = heap st \<Longrightarrow> fresh st' = fresh st \<Longrightarrow> adds_only a K st st'"
  by (simp add: adds_only_def)

lemma adds_only_trans:
  "adds_only a K st st1 \<Longrightarrow> adds_only a K' st1 st2 \<Longrightarrow> adds_only a (K \<union> K') st st2"
  by (simp add: adds_only_def)

lemma adds_only_mono: "adds_only a K st st' \<Longrightarrow> K \<subseteq> K' \<Longrightarrow> adds_only a K' st st'"
  by (auto simp: adds_only_def)

lemma set_prop_ref:
  "set_prop pf st (VRef a) k x = (r, st') \<Longrightarrow>
     r = Inr () \<and> sent st' = sent st \<and> fresh st' = fresh st \<and>
     heap st' = (heap st)(a := (heap st a)\<lparr>props := (props (heap st a))(k \<mapsto> x)\<rparr>)"
  by auto

lemma getClientCredentialsToken_heap:
  "getClientCredentialsToken pf config st = (r, st') \<Longrightarrow> heap st' = heap st \<and> fresh st' = fresh st"
proof (cases "tokenRequest pf config")
  case (Inl e)
  assume "getClientCredentialsToken pf config st = (r, st')"
  with Inl show ?thesis
    by (simp add: getClientCredentialsToken_def split: if_splits)
next
  case (Inr req)
  have "snd (getClientCredentialsToken pf config st) = st \<or>
        snd (getClientCredentialsToken pf config st) = st\<lparr>sent := sent st @ [req]\<rparr>"
    by (simp add: getClientCredentialsToken_def Inr Let_def split: sum.split option.split)
  moreover assume "getClientCredentialsToken pf config st = (r, st')"
  ultimately show ?thesis by auto
qed

lemma getAuthorizationHeader_heap:
  "getAuthorizationHeader pf ctx st = (r, st') \<Longrightarrow> heap st' = heap st \<and> fresh st' = fresh st"
  by (auto simp: getAuthorizationHeader_def Let_def split: if_splits sum.splits prod.splits
      dest: getClientCredentialsToken_heap)

lemma addAuthentication_frame:
  assumes "addAuthentication pf ctx (VRef a) st = (r, st')"
  shows "adds_only a {''Authorization''} st st'"
  using assms
  by (auto simp: addAuthentication_def adds_only_refl split: if_splits sum.splits prod.splits option.splits
      dest!: getAuthorizationHeader_heap simp: adds_only_def)

lemma addUserAgent_frame:
  assumes "addUserAgent pf (VRef a) st = (r, st')"
  shows "r = Inr () \<and> adds_only a {''User-Agent''} st st' \<and> sent st' = sent st \<and>
         (truthyJ (props (heap st' a) ''User-Agent'') \<or> truthyJ (props (heap st' a) ''user-agent''))"
  using assms
  by (auto simp: addUserAgent_def adds_only_def SGNL_USER_AGENT_def split: if_splits)

lemma buildOptions_ref:
  assumes "buildOptions pf meth url (VRef a) reqBody st = (r, st')"
  shows "adds_only a {''Content-Type''} st st' \<and> sent st' = sent st \<and>
         (\<exists>req. r = Inr req \<and> req_headers req = HeadersObject (heap st' a))"
  using assms
  by (auto simp: buildOptions_def Let_def snapshot_def adds_only_def split: if_splits)

lemma makeWebhookRequest_ref:
  assumes "makeWebhookRequest pf meth url (VRef a) reqBody codes st = (r, st')"
  shows "adds_only a {''Content-Type''} st st' \<and>
         (\<exists>req. sent st' = sent st @ [req] \<and> req_headers req = HeadersObject (heap st' a))"
proof -
  obtain b st1 where bo: "buildOptions pf meth url (VRef a) reqBody st = (b, st1)"
    by (cases "buildOptions pf meth url (VRef a) reqBody st") auto
  from buildOptions_ref [OF bo] obtain req where
    f: "adds_only a {''Content-Type''} st st1" "sent st1 = sent st" "b = Inr req"
       "req_headers req = HeadersObject (heap st1 a)" by auto
  from assms bo f have "st' = st1\<lparr>sent := sent st1 @ [req]\<rparr>"
    by (auto simp: makeWebhookRequest_def Let_def split: sum.splits)
  with f show ?thesis by (auto simp: adds_only_def)
qed

lemma invoke_pipeline:
  assumes m: "truthyS (method ps)"
    and u: "buildURL ps ctx = Inr url"
    and p: "parseRequestHeaders pf (requestHeaders ps) st = (Inr (VRef a), st1)"
    and i: "invoke pf ps ctx st = (r, st')"
  shows "adds_only a computed_headers st1 st' \<and>
         (\<forall>res. r = Inr res \<longrightarrow>
            sent st' \<noteq> [] \<and> req_headers (last (sent st')) = HeadersObject (heap st' a) \<and>
            (truthyJ (props (heap st' a) ''User-Agent'') \<or> truthyJ (props (heap st' a) ''user-agent'')))"
proof -
  obtain r2 st2 where a2: "addAuthentication pf ctx (VRef a) st1 = (r2, st2)"
    by (cases "addAuthentication pf ctx (VRef a) st1") auto
  note f2 = addAuthentication_frame [OF a2]
  show ?thesis
  proof (cases r2)
    case (Inl e)
    with m u p a2 i have "st' = st2" "r = Inl e" by (auto simp: invoke_def)
    with f2 show ?thesis by (auto simp: computed_headers_def elim: adds_only_mono)
  next
    case (Inr x)
    obtain r3 st3 where a3: "addUserAgent pf (VRef a) st2 = (r3, st3)"
      by (cases "addUserAgent pf (VRef a) st2") auto
    note f3 = addUserAgent_frame [OF a3]
    then have r3: "r3 = Inr ()" by simp
    show ?thesis
    proof (cases "parseAcceptedStatusCodes pf (acceptedStatusCodes ps)")
      case (Inl e)
      with m u p a2 Inr a3 r3 i have "st' = st3" "r = Inl e" by (auto simp: invoke_def)
      with f2 f3 adds_only_trans [of a "{''Authorization''}" st1 st2 "{''User-Agent''}" st3]
      show ?thesis by (auto simp: computed_headers_def elim: adds_only_mono)
    next
      case codes: (Inr codes)
      obtain r4 st4 where a4: "makeWebhookRequest pf (str_of (method ps)) url (VRef a)
          (parseRequestBody pf (requestBody ps)) (Some codes) st3 = (r4, st4)"
        by (cases "makeWebhookRequest pf (str_of (method ps)) url (VRef a)
          (parseRequestBody pf (requestBody ps)) (Some codes) st3") auto
      note f4 = makeWebhookRequest_ref [OF a4]
      from m u p a2 Inr a3 r3 codes a4 i have st': "st' = st4"
        by (auto simp: invoke_def Let_def split: sum.splits if_splits)
      have se: "adds_only a computed_headers st1 st4"
        using adds_only_trans [OF adds_only_trans [OF f2 conjunct1 [OF conjunct2 [OF f3]]] conjunct1 [OF f4]]
        by (auto simp: computed_headers_def elim: adds_only_mono)
      from f4 obtain req where q: "sent st4 = sent st3 @ [req]" "req_headers req = HeadersObject (heap st4 a)"
        by auto
      from f3 f4 have ua: "truthyJ (props (heap st4 a) ''User-Agent'') \<or> truthyJ (props (heap st4 a) ''user-agent'')"
        by (auto simp: adds_only_def)
      from se q ua st' show ?thesis by auto
    qed
  qed
qed

lemma getClientCredentialsToken_fst:
  "fst (getClientCredentialsToken pf config st) = fst (getClientCredentialsToken pf config st0)"
  by (simp add: getClientCredentialsToken_def Let_def split: sum.split option.split)

lemma getAuthorizationHeader_fst:
  "fst (getAuthorizationHeader pf ctx st) = fst (getAuthorizationHeader pf ctx st0)"
proof -
  have key: "fst (case getClientCredentialsToken pf c st of
                 (Inl e, st1) \<Rightarrow> (Inl e, st1)
               | (Inr token, st1) \<Rightarrow> (Inr (''Bearer '' @ toString token), st1))
          = fst (case getClientCredentialsToken pf c st0 of
                 (Inl e, st1) \<Rightarrow> (Inl e, st1)
               | (Inr token, st1) \<Rightarrow> (Inr (''Bearer '' @ toString token), st1))" for c
    using getClientCredentialsToken_fst [of pf c st st0]
    by (cases "getClientCredentialsToken pf c st"; cases "getClientCredentialsToken pf c st0")
       (auto split: sum.splits)
  show ?thesis
    unfolding getAuthorizationHeader_def Let_def
    by (simp add: key split: sum.split)
qed

lemma addAuthentication_value:
  assumes "addAuthentication pf ctx (VRef a) st = (Inr u, st')"
  shows "props (heap st' a) ''Authorization'' =
           (if truthyJ (props (heap st a) ''Authorization'') \<or> truthyJ (props (heap st a) ''authorization'')
            then props (heap st a) ''Authorization''
            else (case fst (getAuthorizationHeader pf ctx st) of
                    Inr v \<Rightarrow> Some (JStr v)
                  | Inl e \<Rightarrow> props (heap st a) ''Authorization''))"
  using assms
  by (auto simp: addAuthentication_def split: if_splits sum.splits prod.splits option.splits
      dest!: getAuthorizationHeader_heap)

lemma addUserAgent_value:
  assumes "addUserAgent pf (VRef a) st = (r, st')"
  shows "props (heap st' a) ''User-Agent'' =
           (if truthyJ (props (heap st a) ''User-Agent'') \<or> truthyJ (props (heap st a) ''user-agent'')
            then props (heap st a) ''User-Agent''
            else Some (JStr SGNL_USER_AGENT))"
  using assms by (auto simp: addUserAgent_def split: if_splits)

lemma buildOptions_value:
  assumes "buildOptions pf meth url (VRef a) reqBody st = (r, st')"
  shows "props (heap st' a) ''Content-Type'' =
           (if toUpperCase meth \<in> set methodsWithBody \<and> truthyJ reqBody \<and>
               \<not> truthyJ (props (heap st a) ''Content-Type'') \<and>
               \<not> truthyJ (props (heap st a) ''content-type'')
            then Some (JStr ''application/json'')
            else props (heap st a) ''Content-Type'')"
  using assms by (auto simp: buildOptions_def Let_def split: if_splits)

lemma makeWebhookRequest_value:
  assumes "makeWebhookRequest pf meth url (VRef a) reqBody codes st = (r, st')"
  shows "props (heap st' a) ''Content-Type'' =
           (if toUpperCase meth \<in> set methodsWithBody \<and> truthyJ reqBody \<and>
               \<not> truthyJ (props (heap st a) ''Content-Type'') \<and>
               \<not> truthyJ (props (heap st a) ''content-type'')
            then Some (JStr ''application/json'')
            else props (heap st a) ''Content-Type'')"
proof -
  obtain b st1 where bo: "buildOptions pf meth url (VRef a) reqBody st = (b, st1)"
    by (cases "buildOptions pf meth url (VRef a) reqBody st") auto
  from buildOptions_ref [OF bo] obtain req where b: "b = Inr req" by auto
  from assms bo b have "heap st' = heap st1"
    by (auto simp: makeWebhookRequest_def Let_def split: sum.splits)
  with buildOptions_value [OF bo] show ?thesis by simp
qed

lemma addBearerToken_frame:
  assumes "addBearerToken pf ctx (VRef a) st = (r, st')"
  shows "r = Inr () \<and> adds_only a {''Authorization''} st st' \<and> sent st' = sent st \<and>
         props (heap st' a) ''Authorization'' =
           (if truthyS (secrets ctx ''BEARER_AUTH_TOKEN'') \<and>
               \<not> truthyJ (props (heap st a) ''Authorization'') \<and>
               \<not> truthyJ (props (heap st a) ''authorization'')
            then Some (JStr (''Bearer '' @ str_of (secrets ctx ''BEARER_AUTH_TOKEN'')))
            else props (heap st a) ''Authorization'')"
  using assms
  by (auto simp: addBearerToken_def adds_only_def split: if_splits)

lemma invoke_success_steps:
  assumes m: "truthyS (method ps)"
    and u: "buildURL ps ctx = Inr url"
    and p: "parseRequestHeaders pf (requestHeaders ps) st = (Inr headers, st1)"
    and i: "invoke pf ps ctx st = (Inr res, st')"
  shows "\<exists>st2 st3 codes result.
    addAuthentication pf ctx headers st1 = (Inr (), st2) \<and>
    addUserAgent pf headers st2 = (Inr (), st3) \<and>
    parseAcceptedStatusCodes pf (acceptedStatusCodes ps) = Inr codes \<and>
    makeWebhookRequest pf (str_of (method ps)) url headers
        (parseRequestBody pf (requestBody ps)) (Some codes) st3 = (Inr result, st')"
proof -
  obtain r2 st2 where a2: "addAuthentication pf ctx headers st1 = (r2, st2)"
    by (cases "addAuthentication pf ctx headers st1") auto
  obtain r3 st3 where a3: "addUserAgent pf headers st2 = (r3, st3)"
    by (cases "addUserAgent pf headers st2") auto
  from m u p a2 i have r2: "r2 = Inr ()"
    by (cases r2) (simp_all add: invoke_def)
  from m u p a2 r2 a3 i have r3: "r3 = Inr ()"
    by (cases r3) (simp_all add: invoke_def)
  from m u p a2 r2 a3 r3 i obtain codes where
    c: "parseAcceptedStatusCodes pf (acceptedStatusCodes ps) = Inr codes"
    by (cases "parseAcceptedStatusCodes pf (acceptedStatusCodes ps)") (simp_all add: invoke_def)
  obtain r4 st4 where a4: "makeWebhookRequest pf (str_of (method ps)) url headers
        (parseRequestBody pf (requestBody ps)) (Some codes) st3 = (r4, st4)"
    by (cases "makeWebhookRequest pf (str_of (method ps)) url headers
        (parseRequestBody pf (requestBody ps)) (Some codes) st3") auto
  from m u p a2 r2 a3 r3 c a4 i obtain result where "r4 = Inr result" "st4 = st'"
    by (cases r4) (simp_all add: invoke_def split: if_splits)
  with a2 r2 a3 r3 c a4 show ?thesis by blast
qed

lemma invoke_pipeline_values:
  assumes m: "truthyS (method ps)"
    and u: "buildURL ps ctx = Inr url"
    and p: "parseRequestHeaders pf (requestHeaders ps) st = (Inr (VRef a), st1)"
    and i: "invoke pf ps ctx st = (Inr res, st')"
  shows "props (heap st' a) ''Authorization'' =
           (if truthyJ (props (heap st1 a) ''Authorization'') \<or> truthyJ (props (heap st1 a) ''authorization'')
            then props (heap st1 a) ''Authorization''
            else (case fst (getAuthorizationHeader pf ctx st) of
                    Inr v \<Rightarrow> Some (JStr v)
                  | Inl e \<Rightarrow> props (heap st1 a) ''Authorization''))"
    and "props (heap st' a) ''User-Agent'' =
           (if truthyJ (props (heap st1 a) ''User-Agent'') \<or> truthyJ (props (heap st1 a) ''user-agent'')
            then props (heap st1 a) ''User-Agent''
            else Some (JStr SGNL_USER_AGENT))"
    and "props (heap st' a) ''Content-Type'' =
           (if toUpperCase (str_of (method ps)) \<in> set methodsWithBody \<and>
               truthyJ (parseRequestBody pf (requestBody ps)) \<and>
               \<not> truthyJ (props (heap st1 a) ''Content-Type'') \<and>
               \<not> truthyJ (props (heap st1 a) ''content-type'')
            then Some (JStr ''application/json'')
            else props (heap st1 a) ''Content-Type'')"
proof -
  from invoke_success_steps [OF m u p i] obtain st2 st3 codes result where
    s2: "addAuthentication pf ctx (VRef a) st1 = (Inr (), st2)" and
    s3: "addUserAgent pf (VRef a) st2 = (Inr (), st3)" and
    s4: "makeWebhookRequest pf (str_of (method ps)) url (VRef a)
        (parseRequestBody pf (requestBody ps)) (Some codes) st3 = (Inr result, st')"
    by blast
  note f2 = addAuthentication_frame [OF s2] and v2 = addAuthentication_value [OF s2]
  note f3 = addUserAgent_frame [OF s3] and v3 = addUserAgent_value [OF s3]
  note f4 = makeWebhookRequest_ref [OF s4] and v4 = makeWebhookRequest_value [OF s4]
  have k2: "props (heap st2 a) k = props (heap st1 a) k" if "k \<noteq> ''Authorization''" for k
    using f2 that by (simp add: adds_only_def)
  have k3: "props (heap st3 a) k = props (heap st2 a) k" if "k \<noteq> ''User-Agent''" for k
    using f3 that by (simp add: adds_only_def)
  have k4: "props (heap st' a) k = props (heap st3 a) k" if "k \<noteq> ''Content-Type''" for k
    using f4 that by (simp add: adds_only_def)
  have g: "fst (getAuthorizationHeader pf ctx st1) = fst (getAuthorizationHeader pf ctx st)"
    by (rule getAuthorizationHeader_fst)
  show "props (heap st' a) ''Authorization'' =
           (if truthyJ (props (heap st1 a) ''Authorization'') \<or> truthyJ (props (heap st1 a) ''authorization'')
            then props (heap st1 a) ''Authorization''
            else (case fst (getAuthorizationHeader pf ctx st) of
                    Inr v \<Rightarrow> Some (JStr v)
                  | Inl e \<Rightarrow> props (heap st1 a) ''Authorization''))"
    using v2 by (simp add: k4 k3 g)
  show "props (heap st' a) ''User-Agent'' =
           (if truthyJ (props (heap st1 a) ''User-Agent'') \<or> truthyJ (props (heap st1 a) ''user-agent'')
            then props (heap st1 a) ''User-Agent''
            else Some (JStr SGNL_USER_AGENT))"
    using v3 by (simp add: k4 k2)
  show "props (heap st' a) ''Content-Type'' =
           (if toUpperCase (str_of (method ps)) \<in> set methodsWithBody \<and>
               truthyJ (parseRequestBody pf (requestBody ps)) \<and>
               \<not> truthyJ (props (heap st1 a) ''Content-Type'') \<and>
               \<not> truthyJ (props (heap st1 a) ''content-type'')
            then Some (JStr ''application/json'')
            else props (heap st1 a) ''Content-Type'')"
    using v4 by (simp add: k3 k2)
qed

lemma invoke_lenient_pipeline:
  assumes m: "truthyS (method ps)"
    and u: "determineURL ps ctx = Inr url"
    and p: "parseRequestHeaders pf (requestHeaders ps) st = (Inr (VRef a), st1)"
    and i: "invoke_lenient pf ps ctx st = (r, st')"
  shows "adds_only a {''Authorization'', ''Content-Type''} st1 st' \<and>
         props (heap st' a) ''Authorization'' =
           (if truthyS (secrets ctx ''BEARER_AUTH_TOKEN'') \<and>
               \<not> truthyJ (props (heap st1 a) ''Authorization'') \<and>
               \<not> truthyJ (props (heap st1 a) ''authorization'')
            then Some (JStr (''Bearer '' @ str_of (secrets ctx ''BEARER_AUTH_TOKEN'')))
            else props (heap st1 a) ''Authorization'') \<and>
         (\<forall>res. r = Inr res \<longrightarrow>
            sent st' \<noteq> [] \<and> req_headers (last (sent st')) = HeadersObject (heap st' a) \<and>
            props (heap st' a) ''Content-Type'' =
              (if toUpperCase (str_of (method ps)) \<in> set methodsWithBody \<and>
                  truthyJ (parseRequestBody pf (requestBody ps)) \<and>
                  \<not> truthyJ (props (heap st1 a) ''Content-Type'') \<and>
                  \<not> truthyJ (props (heap st1 a) ''content-type'')
               then Some (JStr ''application/json'')
               else props (heap st1 a) ''Content-Type''))"
proof -
  obtain r2 st2 where a2: "addBearerToken pf ctx (VRef a) st1 = (r2, st2)"
    by (cases "addBearerToken pf ctx (VRef a) st1") auto
  note f2 = addBearerToken_frame [OF a2]
  then have r2: "r2 = Inr ()" by simp
  have k2: "props (heap st2 a) k = props (heap st1 a) k" if "k \<noteq> ''Authorization''" for k
    using f2 that by (simp add: adds_only_def)
  show ?thesis
  proof (cases "parseAcceptedStatusCodes pf (acceptedStatusCodes ps)")
    case (Inl e)
    with m u p a2 r2 i have "st' = st2" "r = Inl e" by (auto simp: invoke_lenient_def)
    with f2 show ?thesis by (auto elim: adds_only_mono)
  next
    case codes: (Inr codes)
    obtain r3 st3 where a3: "makeWebhookRequest pf (str_of (method ps)) url (VRef a)
        (parseRequestBody pf (requestBody ps)) (Some codes) st2 = (r3, st3)"
      by (cases "makeWebhookRequest pf (str_of (method ps)) url (VRef a)
        (parseRequestBody pf (requestBody ps)) (Some codes) st2") auto
    note f3 = makeWebhookRequest_ref [OF a3] and v3 = makeWebhookRequest_value [OF a3]
    from m u p a2 r2 codes a3 i have st': "st' = st3"
      by (auto simp: invoke_lenient_def Let_def split: sum.splits)
    have k3: "props (heap st3 a) k = props (heap st2 a) k" if "k \<noteq> ''Content-Type''" for k
      using f3 that by (simp add: adds_only_def)
    have se: "adds_only a {''Authorization'', ''Content-Type''} st1 st3"
      using adds_only_trans [OF conjunct1 [OF conjunct2 [OF f2]] conjunct1 [OF f3]]
      by (auto elim: adds_only_mono)
    from f3 obtain req where q: "sent st3 = sent st2 @ [req]" "req_headers req = HeadersObject (heap st3 a)"
      by auto
    from se q f2 v3 st' show ?thesis by (simp add: k3 k2)
  qed
qed

lemma parseRequestHeaders_ref:
  assumes "requestHeaders ps = VRef a" and "a < fresh st"
  shows "parseRequestHeaders pf (requestHeaders ps) st = (Inr (VRef a), snd (alloc empty_object st))"
    and "heap (snd (alloc empty_object st)) a = heap st a"
    and "\<forall>a'. a' < fresh st \<longrightarrow> heap (snd (alloc empty_object st)) a' = heap st a'"
    and "fresh (snd (alloc empty_object st)) = Suc (fresh st)"
  using assms by (simp_all add: parseRequestHeaders_def alloc_def)

lemma adds_only_caller:
  assumes "adds_only a K st1 st'" and "a < n"
    and "\<forall>a'. a' < n \<longrightarrow> heap st1 a' = heap st a'"
  shows "\<forall>a'. a' < n \<and> a' \<noteq> a \<longrightarrow> heap st' a' = heap st a'"
    and "elems (heap st' a) = elems (heap st a)"
    and "\<forall>k. k \<notin> K \<or> truthyJ (props (heap st a) k) \<longrightarrow> props (heap st' a) k = props (heap st a) k"
  using assms by (simp_all add: adds_only_def)

section \<open>Properties of the request normalizer\<close>

text \<open>
  C8, as the claim states it, fails: with an object as \<^verbatim>\<open>requestHeaders\<close> and a bearer
  token configured, the caller's mapping, which held neither Authorization nor User-Agent
  before the invocation, holds the computed Authorization after it, in both revisions of
  the script, and the computed User-Agent as well in the bundle.
\<close>

theorem caller_headers_mutated:
  "props (heap (caller_state [''X-API-Key'' \<mapsto> JStr ''key123'']) 0) ''Authorization'' = None \<and>
   props (heap (caller_state [''X-API-Key'' \<mapsto> JStr ''key123'']) 0) ''User-Agent'' = None \<and>
   props (heap (snd run_object_headers) 0) ''Authorization'' = Some (JStr ''Bearer test-token'') \<and>
   props (heap (snd run_object_headers) 0) ''User-Agent'' = Some (JStr ''SGNL-CAEP-Hub/2.0'') \<and>
   props (heap (snd run_object_headers_lenient) 0) ''Authorization''
     = Some (JStr ''Bearer test-token'')"
  by (simp add: run_object_headers_def run_object_headers_lenient_def run_defs)

text \<open>
  C8, amended. A structured \<^verbatim>\<open>requestHeaders\<close> is used in place, not copied. The
  invocation changes no other object of the caller, and of the caller's mapping it changes
  no entry but the computed headers, and those only where they held no truthy value. When
  the invocation succeeds, the mapping as it then stands is the very header set of the
  dispatched request, and the computed headers have been written into it: Authorization
  is the resolved value unless the caller gave one under either spelling or the resolver
  failed; User-Agent is the fixed agent unless the caller gave one under either spelling;
  Content-Type is \<^verbatim>\<open>application/json\<close> when a body is attached and the caller gave none
  under either spelling. The lenient script does the same with its bearer token and
  Content-Type, and writes no User-Agent.
\<close>

theorem caller_headers_used_in_place:
  assumes rh: "requestHeaders ps = VRef a" and a: "a < fresh st"
    and i: "invoke pf ps ctx st = (r, st')"
    and l: "invoke_lenient pf ps ctx st = (rl, stl)"
  shows "(\<forall>a'. a' < fresh st \<and> a' \<noteq> a \<longrightarrow> heap st' a' = heap st a') \<and>
         elems (heap st' a) = elems (heap st a) \<and>
         (\<forall>k. k \<notin> computed_headers \<or> truthyJ (props (heap st a) k)
              \<longrightarrow> props (heap st' a) k = props (heap st a) k) \<and>
         (\<forall>res. r = Inr res \<longrightarrow>
            sent st' \<noteq> [] \<and> req_headers (last (sent st')) = HeadersObject (heap st' a) \<and>
            (truthyJ (props (heap st' a) ''User-Agent'') \<or> truthyJ (props (heap st' a) ''user-agent'')) \<and>
            props (heap st' a) ''Authorization'' =
              (if truthyJ (props (heap st a) ''Authorization'') \<or> truthyJ (props (heap st a) ''authorization'')
               then props (heap st a) ''Authorization''
               else (case fst (getAuthorizationHeader pf ctx st) of
                       Inr v \<Rightarrow> Some (JStr v)
                     | Inl e \<Rightarrow> props (heap st a) ''Authorization'')) \<and>
            props (heap st' a) ''User-Agent'' =
              (if truthyJ (props (heap st a) ''User-Agent'') \<or> truthyJ (props (heap st a) ''user-agent'')
               then props (heap st a) ''User-Agent''
               else Some (JStr SGNL_USER_AGENT)) \<and>
            props (heap st' a) ''Content-Type'' =
              (if toUpperCase (str_of (method ps)) \<in> set methodsWithBody \<and>
                  truthyJ (parseRequestBody pf (requestBody ps)) \<and>
                  \<not> truthyJ (props (heap st a) ''Content-Type'') \<and>
                  \<not> truthyJ (props (heap st a) ''content-type'')
               then Some (JStr ''application/json'')
               else props (heap st a) ''Content-Type'')) \<and>
         (\<forall>a'. a' < fresh st \<and> a' \<noteq> a \<longrightarrow> heap stl a' = heap st a') \<and>
         elems (heap stl a) = elems (heap st a) \<and>
         (\<forall>k. k \<notin> {''Authorization'', ''Content-Type''} \<or> truthyJ (props (heap st a) k)
              \<longrightarrow> props (heap stl a) k = props (heap st a) k) \<and>
         (\<forall>res. rl = Inr res \<longrightarrow>
            sent stl \<noteq> [] \<and> req_headers (last (sent stl)) = HeadersObject (heap stl a) \<and>
            props (heap stl a) ''Authorization'' =
              (if truthyS (secrets ctx ''BEARER_AUTH_TOKEN'') \<and>
                  \<not> truthyJ (props (heap st a) ''Authorization'') \<and>
                  \<not> truthyJ (props (heap st a) ''authorization'')
               then Some (JStr (''Bearer '' @ str_of (secrets ctx ''BEARER_AUTH_TOKEN'')))
               else props (heap st a) ''Authorization'') \<and>
            props (heap stl a) ''Content-Type'' =
              (if toUpperCase (str_of (method ps)) \<in> set methodsWithBody \<and>
                  truthyJ (parseRequestBody pf (requestBody ps)) \<and>
                  \<not> truthyJ (props (heap st a) ''Content-Type'') \<and>
                  \<not> truthyJ (props (heap st a) ''content-type'')
               then Some (JStr ''application/json'')
               else props (heap st a) ''Content-Type''))"
proof -
  define st1 where "st1 = snd (alloc empty_object st)"
  note p = parseRequestHeaders_ref(1) [OF rh a, of pf, folded st1_def]
    and ha = parseRequestHeaders_ref(2) [OF rh a, folded st1_def]
    and hb = parseRequestHeaders_ref(3) [OF rh a, folded st1_def]
  have strict: "adds_only a computed_headers st1 st' \<or> st' = st"
    and disp: "\<forall>res. r = Inr res \<longrightarrow>
            sent st' \<noteq> [] \<and> req_headers (last (sent st')) = HeadersObject (heap st' a) \<and>
            (truthyJ (props (heap st' a) ''User-Agent'') \<or> truthyJ (props (heap st' a) ''user-agent''))"
  proof -
    show "adds_only a computed_headers st1 st' \<or> st' = st"
    proof (cases "truthyS (method ps)")
      case False
      with i show ?thesis by (simp add: invoke_def)
    next
      case m: True
      show ?thesis
      proof (cases "buildURL ps ctx")
        case (Inl e)
        with m i show ?thesis by (simp add: invoke_def)
      next
        case (Inr url)
        from invoke_pipeline [OF m Inr p i] show ?thesis by simp
      qed
    qed
    show "\<forall>res. r = Inr res \<longrightarrow>
            sent st' \<noteq> [] \<and> req_headers (last (sent st')) = HeadersObject (heap st' a) \<and>
            (truthyJ (props (heap st' a) ''User-Agent'') \<or> truthyJ (props (heap st' a) ''user-agent''))"
    proof (cases "truthyS (method ps)")
      case False
      with i show ?thesis by (auto simp: invoke_def)
    next
      case m: True
      show ?thesis
      proof (cases "buildURL ps ctx")
        case (Inl e)
        with m i show ?thesis by (auto simp: invoke_def)
      next
        case (Inr url)
        from invoke_pipeline [OF m Inr p i] show ?thesis by simp
      qed
    qed
  qed
  have f1: "\<forall>a'. a' < fresh st \<and> a' \<noteq> a \<longrightarrow> heap st' a' = heap st a'"
    and f2: "elems (heap st' a) = elems (heap st a)"
    and f3: "\<forall>k. k \<notin> computed_headers \<or> truthyJ (props (heap st a) k)
              \<longrightarrow> props (heap st' a) k = props (heap st a) k"
    using strict adds_only_caller [OF _ a hb, of computed_headers st'] by blast+
  have vals: "props (heap st' a) ''Authorization'' =
              (if truthyJ (props (heap st a) ''Authorization'') \<or> truthyJ (props (heap st a) ''authorization'')
               then props (heap st a) ''Authorization''
               else (case fst (getAuthorizationHeader pf ctx st) of
                       Inr v \<Rightarrow> Some (JStr v)
                     | Inl e \<Rightarrow> props (heap st a) ''Authorization''))"
            "props (heap st' a) ''User-Agent'' =
              (if truthyJ (props (heap st a) ''User-Agent'') \<or> truthyJ (props (heap st a) ''user-agent'')
               then props (heap st a) ''User-Agent''
               else Some (JStr SGNL_USER_AGENT))"
            "props (heap st' a) ''Content-Type'' =
              (if toUpperCase (str_of (method ps)) \<in> set methodsWithBody \<and>
                  truthyJ (parseRequestBody pf (requestBody ps)) \<and>
                  \<not> truthyJ (props (heap st a) ''Content-Type'') \<and>
                  \<not> truthyJ (props (heap st a) ''content-type'')
               then Some (JStr ''application/json'')
               else props (heap st a) ''Content-Type'')"
    if s: "r = Inr res" for res
  proof -
    from i s have m: "truthyS (method ps)"
      by (cases "truthyS (method ps)") (simp_all add: invoke_def)
    from i s m obtain url where u: "buildURL ps ctx = Inr url"
      by (cases "buildURL ps ctx") (simp_all add: invoke_def)
    from i s have i': "invoke pf ps ctx st = (Inr res, st')" by simp
    note v = invoke_pipeline_values [OF m u p i', unfolded ha]
    show "props (heap st' a) ''Authorization'' =
              (if truthyJ (props (heap st a) ''Authorization'') \<or> truthyJ (props (heap st a) ''authorization'')
               then props (heap st a) ''Authorization''
               else (case fst (getAuthorizationHeader pf ctx st) of
                       Inr v \<Rightarrow> Some (JStr v)
                     | Inl e \<Rightarrow> props (heap st a) ''Authorization''))"
      by (rule v(1))
    show "props (heap st' a) ''User-Agent'' =
              (if truthyJ (props (heap st a) ''User-Agent'') \<or> truthyJ (props (heap st a) ''user-agent'')
               then props (heap st a) ''User-Agent''
               else Some (JStr SGNL_USER_AGENT))"
      by (rule v(2))
    show "props (heap st' a) ''Content-Type'' =
              (if toUpperCase (str_of (method ps)) \<in> set methodsWithBody \<and>
                  truthyJ (parseRequestBody pf (requestBody ps)) \<and>
                  \<not> truthyJ (props (heap st a) ''Content-Type'') \<and>
                  \<not> truthyJ (props (heap st a) ''content-type'')
               then Some (JStr ''application/json'')
               else props (heap st a) ''Content-Type'')"
      by (rule v(3))
  qed
  have lp: "adds_only a {''Authorization'', ''Content-Type''} st1 stl \<or> stl = st"
    and lv: "\<forall>res. rl = Inr res \<longrightarrow>
            sent stl \<noteq> [] \<and> req_headers (last (sent stl)) = HeadersObject (heap stl a) \<and>
            props (heap stl a) ''Authorization'' =
              (if truthyS (secrets ctx ''BEARER_AUTH_TOKEN'') \<and>
                  \<not> truthyJ (props (heap st a) ''Authorization'') \<and>
                  \<not> truthyJ (props (heap st a) ''authorization'')
               then Some (JStr (''Bearer '' @ str_of (secrets ctx ''BEARER_AUTH_TOKEN'')))
               else props (heap st a) ''Authorization'') \<and>
            props (heap stl a) ''Content-Type'' =
              (if toUpperCase (str_of (method ps)) \<in> set methodsWithBody \<and>
                  truthyJ (parseRequestBody pf (requestBody ps)) \<and>
                  \<not> truthyJ (props (heap st a) ''Content-Type'') \<and>
                  \<not> truthyJ (props (heap st a) ''content-type'')
               then Some (JStr ''application/json'')
               else props (heap st a) ''Content-Type'')"
  proof -
    show "adds_only a {''Authorization'', ''Content-Type''} st1 stl \<or> stl = st"
    proof (cases "truthyS (method ps)")
      case False
      with l show ?thesis by (simp add: invoke_lenient_def)
    next
      case m: True
      show ?thesis
      proof (cases "determineURL ps ctx")
        case (Inl e)
        with m l show ?thesis by (simp add: invoke_lenient_def)
      next
        case (Inr url)
        from invoke_lenient_pipeline [OF m Inr p l] show ?thesis by (elim conjE) (rule disjI1)
      qed
    qed
    show "\<forall>res. rl = Inr res \<longrightarrow>
            sent stl \<noteq> [] \<and> req_headers (last (sent stl)) = HeadersObject (heap stl a) \<and>
            props (heap stl a) ''Authorization'' =
              (if truthyS (secrets ctx ''BEARER_AUTH_TOKEN'') \<and>
                  \<not> truthyJ (props (heap st a) ''Authorization'') \<and>
                  \<not> truthyJ (props (heap st a) ''authorization'')
               then Some (JStr (''Bearer '' @ str_of (secrets ctx ''BEARER_AUTH_TOKEN'')))
               else props (heap st a) ''Authorization'') \<and>
            props (heap stl a) ''Content-Type'' =
              (if toUpperCase (str_of (method ps)) \<in> set methodsWithBody \<and>
                  truthyJ (parseRequestBody pf (requestBody ps)) \<and>
                  \<not> truthyJ (props (heap st a) ''Content-Type'') \<and>
                  \<not> truthyJ (props (heap st a) ''content-type'')
               then Some (JStr ''application/json'')
               else props (heap st a) ''Content-Type'')"
    proof (intro allI impI)
      fix res assume s: "rl = Inr res"
      from l s have m: "truthyS (method ps)"
        by (cases "truthyS (method ps)") (simp_all add: invoke_lenient_def)
      from l s m obtain url where u: "determineURL ps ctx = Inr url"
        by (cases "determineURL ps ctx") (simp_all add: invoke_lenient_def)
      note v = invoke_lenient_pipeline [OF m u p l, unfolded ha]
      from v have v2: "props (heap stl a) ''Authorization'' =
              (if truthyS (secrets ctx ''BEARER_AUTH_TOKEN'') \<and>
                  \<not> truthyJ (props (heap st a) ''Authorization'') \<and>
                  \<not> truthyJ (props (heap st a) ''authorization'')
               then Some (JStr (''Bearer '' @ str_of (secrets ctx ''BEARER_AUTH_TOKEN'')))
               else props (heap st a) ''Authorization'')"
        by (elim conjE)
      from v have v3: "\<forall>res. rl = Inr res \<longrightarrow>
            sent stl \<noteq> [] \<and> req_headers (last (sent stl)) = HeadersObject (heap stl a) \<and>
            props (heap stl a) ''Content-Type'' =
              (if toUpperCase (str_of (method ps)) \<in> set methodsWithBody \<and>
                  truthyJ (parseRequestBody pf (requestBody ps)) \<and>
                  \<not> truthyJ (props (heap st a) ''Content-Type'') \<and>
                  \<not> truthyJ (props (heap st a) ''content-type'')
               then Some (JStr ''application/json'')
               else props (heap st a) ''Content-Type'')"
        by (elim conjE)
      from v3 s have v4: "sent stl \<noteq> [] \<and> req_headers (last (sent stl)) = HeadersObject (heap stl a) \<and>
            props (heap stl a) ''Content-Type'' =
              (if toUpperCase (str_of (method ps)) \<in> set methodsWithBody \<and>
                  truthyJ (parseRequestBody pf (requestBody ps)) \<and>
                  \<not> truthyJ (props (heap st a) ''Content-Type'') \<and>
                  \<not> truthyJ (props (heap st a) ''content-type'')
               then Some (JStr ''application/json'')
               else props (heap st a) ''Content-Type'')"
        by (elim allE impE)
      from v2 v4 show "sent stl \<noteq> [] \<and> req_headers (last (sent stl)) = HeadersObject (heap stl a) \<and>
            props (heap stl a) ''Authorization'' =
              (if truthyS (secrets ctx ''BEARER_AUTH_TOKEN'') \<and>
                  \<not> truthyJ (props (heap st a) ''Authorization'') \<and>
                  \<not> truthyJ (props (heap st a) ''authorization'')
               then Some (JStr (''Bearer '' @ str_of (secrets ctx ''BEARER_AUTH_TOKEN'')))
               else props (heap st a) ''Authorization'') \<and>
            props (heap stl a) ''Content-Type'' =
              (if toUpperCase (str_of (method ps)) \<in> set methodsWithBody \<and>
                  truthyJ (parseRequestBody pf (requestBody ps)) \<and>
                  \<not> truthyJ (props (heap st a) ''Content-Type'') \<and>
                  \<not> truthyJ (props (heap st a) ''content-type'')
               then Some (JStr ''application/json'')
               else props (heap st a) ''Content-Type'')"
        by (elim conjE) (intro conjI; assumption)
    qed
  qed
  have g1: "\<forall>a'. a' < fresh st \<and> a' \<noteq> a \<longrightarrow> heap stl a' = heap st a'"
    and g2: "elems (heap stl a) = elems (heap st a)"
    and g3: "\<forall>k. k \<notin> {''Authorization'', ''Content-Type''} \<or> truthyJ (props (heap st a) k)
              \<longrightarrow> props (heap stl a) k = props (heap st a) k"
    using lp adds_only_caller [OF _ a hb, of "{''Authorization'', ''Content-Type''}" stl] by blast+
  have d: "\<forall>res. r = Inr res \<longrightarrow>
            sent st' \<noteq> [] \<and> req_headers (last (sent st')) = HeadersObject (heap st' a) \<and>
            (truthyJ (props (heap st' a) ''User-Agent'') \<or> truthyJ (props (heap st' a) ''user-agent'')) \<and>
            props (heap st' a) ''Authorization'' =
              (if truthyJ (props (heap st a) ''Authorization'') \<or> truthyJ (props (heap st a) ''authorization'')
               then props (heap st a) ''Authorization''
               else (case fst (getAuthorizationHeader pf ctx st) of
                       Inr v \<Rightarrow> Some (JStr v)
                     | Inl e \<Rightarrow> props (heap st a) ''Authorization'')) \<and>
            props (heap st' a) ''User-Agent'' =
              (if truthyJ (props (heap st a) ''User-Agent'') \<or> truthyJ (props (heap st a) ''user-agent'')
               then props (heap st a) ''User-Agent''
               else Some (JStr SGNL_USER_AGENT)) \<and>
            props (heap st' a) ''Content-Type'' =
              (if toUpperCase (str_of (method ps)) \<in> set methodsWithBody \<and>
                  truthyJ (parseRequestBody pf (requestBody ps)) \<and>
                  \<not> truthyJ (props (heap st a) ''Content-Type'') \<and>
                  \<not> truthyJ (props (heap st a) ''content-type'')
               then Some (JStr ''application/json'')
               else props (heap st a) ''Content-Type'')"
  proof (intro allI impI)
    fix res assume s: "r = Inr res"
    from disp s have x: "sent st' \<noteq> [] \<and> req_headers (last (sent st')) = HeadersObject (heap st' a) \<and>
            (truthyJ (props (heap st' a) ''User-Agent'') \<or> truthyJ (props (heap st' a) ''user-agent''))"
      by (elim allE impE)
    from x vals [OF s] show "sent st' \<noteq> [] \<and> req_headers (last (sent st')) = HeadersObject (heap st' a) \<and>
            (truthyJ (props (heap st' a) ''User-Agent'') \<or> truthyJ (props (heap st' a) ''user-agent'')) \<and>
            props (heap st' a) ''Authorization'' =
              (if truthyJ (props (heap st a) ''Authorization'') \<or> truthyJ (props (heap st a) ''authorization'')
               then props (heap st a) ''Authorization''
               else (case fst (getAuthorizationHeader pf ctx st) of
                       Inr v \<Rightarrow> Some (JStr v)
                     | Inl e \<Rightarrow> props (heap st a) ''Authorization'')) \<and>
            props (heap st' a) ''User-Agent'' =
              (if truthyJ (props (heap st a) ''User-Agent'') \<or> truthyJ (props (heap st a) ''user-agent'')
               then props (heap st a) ''User-Agent''
               else Some (JStr SGNL_USER_AGENT)) \<and>
            props (heap st' a) ''Content-Type'' =
              (if toUpperCase (str_of (method ps)) \<in> set methodsWithBody \<and>
                  truthyJ (parseRequestBody pf (requestBody ps)) \<and>
                  \<not> truthyJ (props (heap st a) ''Content-Type'') \<and>
                  \<not> truthyJ (props (heap st a) ''content-type'')
               then Some (JStr ''application/json'')
               else props (heap st a) ''Content-Type'')"
      by (elim conjE) (intro conjI; assumption)
  qed
  show ?thesis
    by (intro conjI) (rule f1 f2 f3 d g1 g2 g3 lv)+
qed

theorem caller_headers_used_in_place_witness:
  "props (heap (snd run_object_headers) 0) ''X-API-Key'' = Some (JStr ''key123'') \<and>
   map req_headers (sent (snd run_object_headers)) = [HeadersObject (heap (snd run_object_headers) 0)] \<and>
   props (heap (snd run_object_headers) 0) ''Authorization'' = Some (JStr ''Bearer test-token'') \<and>
   props (heap (snd run_object_headers_lenient) 0) ''X-API-Key'' = Some (JStr ''key123'')"
proof -
  let ?ps = "mock_params ''PUT'' ''https://api.example.com/resource'' (VRef 0)"
  let ?st = "caller_state [''X-API-Key'' \<mapsto> JStr ''key123'']"
  let ?pf = "mock_platform (mock_response 200 ''OK'')"
  have rh: "requestHeaders ?ps = VRef 0" by (simp add: mock_params_def)
  have a: "0 < fresh ?st" by (simp add: caller_state_def)
  note t = caller_headers_used_in_place [OF rh a prod.collapse [symmetric] prod.collapse [symmetric],
      where pf = ?pf and ctx = bearer_context, folded run_object_headers_def run_object_headers_lenient_def]
  from t have k: "\<forall>k. k \<notin> computed_headers \<or> truthyJ (props (heap ?st 0) k)
              \<longrightarrow> props (heap (snd run_object_headers) 0) k = props (heap ?st 0) k"
    by (elim conjE)
  from t have kl: "\<forall>k. k \<notin> {''Authorization'', ''Content-Type''} \<or> truthyJ (props (heap ?st 0) k)
              \<longrightarrow> props (heap (snd run_object_headers_lenient) 0) k = props (heap ?st 0) k"
    by (elim conjE)
  have x: "props (heap (snd run_object_headers) 0) ''X-API-Key'' = Some (JStr ''key123'')"
    using k [rule_format, of "''X-API-Key''"] by (simp add: caller_state_def)
  have xl: "props (heap (snd run_object_headers_lenient) 0) ''X-API-Key'' = Some (JStr ''key123'')"
    using kl [rule_format, of "''X-API-Key''"] by (simp add: caller_state_def)
  have e: "map req_headers (sent (snd run_object_headers)) = [HeadersObject (heap (snd run_object_headers) 0)] \<and>
     props (heap (snd run_object_headers) 0) ''Authorization'' = Some (JStr ''Bearer test-token'')"
    by (simp add: run_object_headers_def run_defs)
  from x xl e show ?thesis by simp
qed








section \<open>Properties of the authorization step\<close>

text \<open>
  C5, as the claim states it, fails: the check is not case-insensitive. With the caller's
  header spelled \<^verbatim>\<open>AUTHORIZATION\<close> and a bearer token configured, resolution runs and the
  dispatched request carries both the caller's header and the resolved one.
\<close>

theorem uppercase_Authorization_not_detected:
  "map req_headers (sent (snd run_uppercase_authorization))
     = [HeadersObject (heap (snd run_uppercase_authorization) 0)] \<and>
   props (heap (snd run_uppercase_authorization) 0) ''AUTHORIZATION'' = Some (JStr ''Custom auth'') \<and>
   props (heap (snd run_uppercase_authorization) 0) ''Authorization''
     = Some (JStr ''Bearer test-token'')"
  by (simp add: run_uppercase_authorization_def run_defs)

text \<open>
  C5, amended. Where the headers can be read: resolution is skipped entirely, the state
  left as it is, when they hold a truthy value under \<^verbatim>\<open>Authorization\<close> or under
  \<^verbatim>\<open>authorization\<close>, the two spellings that are checked. When resolution runs and the
  resolver fails with a message, the failure is swallowed if the message contains
  \<^verbatim>\<open>No authentication configured\<close>, the headers staying as they were, and is the result of
  the step otherwise; and a failure of the step is the failure of the invocation.
\<close>

theorem addAuthentication_behaviour:
  assumes a: "get_prop pf st headers ''Authorization'' = Inr a"
    and b: "get_prop pf st headers ''authorization'' = Inr b"
  shows "(truthyJ a \<or> truthyJ b \<longrightarrow> addAuthentication pf ctx headers st = (Inr (), st)) \<and>
         (\<not> truthyJ a \<and> \<not> truthyJ b \<longrightarrow>
            (\<forall>err st1 m. getAuthorizationHeader pf ctx st = (Inl err, st1) \<and> message err = Some m \<longrightarrow>
               heap st1 = heap st \<and>
               addAuthentication pf ctx headers st =
                 (if str_includes m ''No authentication configured'' then (Inr (), st1)
                  else (Inl err, st1)))) \<and>
         (\<forall>ps url st0 err st1.
            truthyS (method ps) \<and> buildURL ps ctx = Inr url \<and>
            parseRequestHeaders pf (requestHeaders ps) st0 = (Inr headers, st) \<and>
            addAuthentication pf ctx headers st = (Inl err, st1)
              \<longrightarrow> invoke pf ps ctx st0 = (Inl err, st1))"
proof (intro conjI allI impI)
  assume "truthyJ a \<or> truthyJ b"
  then show "addAuthentication pf ctx headers st = (Inr (), st)"
    using a b by (auto simp: addAuthentication_def)
next
  fix err st1 m
  assume f: "\<not> truthyJ a \<and> \<not> truthyJ b"
    and g: "getAuthorizationHeader pf ctx st = (Inl err, st1) \<and> message err = Some m"
  from g show "heap st1 = heap st" by (auto dest: getAuthorizationHeader_heap)
  from f g show "addAuthentication pf ctx headers st =
                 (if str_includes m ''No authentication configured'' then (Inr (), st1)
                  else (Inl err, st1))"
    using a b by (simp add: addAuthentication_def)
next
  fix ps url st0 err st1
  assume "truthyS (method ps) \<and> buildURL ps ctx = Inr url \<and>
            parseRequestHeaders pf (requestHeaders ps) st0 = (Inr headers, st) \<and>
            addAuthentication pf ctx headers st = (Inl err, st1)"
  then show "invoke pf ps ctx st0 = (Inl err, st1)"
    by (simp add: invoke_def)
qed

theorem addAuthentication_behaviour_witness:
  "addAuthentication (mock_platform (mock_response 200 ''OK'')) bearer_context (VRef 0)
      (caller_state [''authorization'' \<mapsto> JStr ''Custom auth''])
     = (Inr (), caller_state [''authorization'' \<mapsto> JStr ''Custom auth'']) \<and>
   fst (addAuthentication (mock_platform (mock_response 200 ''OK'')) no_secrets (VRef 0) init_state)
     = Inr ()"
proof -
  let ?pf = "mock_platform (mock_response 200 ''OK'')"
  let ?st = "caller_state [''authorization'' \<mapsto> JStr ''Custom auth'']"
  have a: "get_prop ?pf ?st (VRef 0) ''Authorization'' = Inr None"
    and b: "get_prop ?pf ?st (VRef 0) ''authorization'' = Inr (Some (JStr ''Custom auth''))"
    by (simp_all add: caller_state_def)
  have c: "get_prop ?pf init_state (VRef 0) ''Authorization'' = Inr None"
    and d: "get_prop ?pf init_state (VRef 0) ''authorization'' = Inr None"
    by (simp_all add: init_state_def empty_object_def)
  have g: "getAuthorizationHeader ?pf no_secrets init_state =
      (Inl (new_Error (''No authentication configured. Provide one of: ''
           @ ''BEARER_AUTH_TOKEN, BASIC_USERNAME/BASIC_PASSWORD, ''
           @ ''OAUTH2_AUTHORIZATION_CODE_ACCESS_TOKEN, or OAUTH2_CLIENT_CREDENTIALS_*'')), init_state)"
    by (simp add: getAuthorizationHeader_def no_secrets_def)
  from addAuthentication_behaviour [OF a b, of bearer_context]
       addAuthentication_behaviour [OF c d, of no_secrets] g
  show ?thesis by (simp add: new_Error_def startsWith_def)
qed

section \<open>Properties of the URL composer\<close>

lemma endsWith_single: "endsWith b [c] \<longleftrightarrow> b \<noteq> [] \<and> last b = c"
  by (cases b rule: rev_cases) (auto simp: endsWith_def)

lemma startsWith_single: "startsWith s [c] \<longleftrightarrow> s \<noteq> [] \<and> hd s = c"
  by (cases s) (auto simp: startsWith_def)

lemma endsWith_double: "endsWith b [c, d] \<longleftrightarrow> (\<exists>b'. b = b' @ [c, d])"
proof
  assume "endsWith b [c, d]"
  then have "drop (length b - 2) b = [c, d]" by (simp add: endsWith_def numeral_2_eq_2)
  then have "b = take (length b - 2) b @ [c, d]"
    by (metis append_take_drop_id)
  then show "\<exists>b'. b = b' @ [c, d]" ..
next
  assume "\<exists>b'. b = b' @ [c, d]"
  then show "endsWith b [c, d]" by (auto simp: endsWith_def)
qed

lemma butlast_slash: "endsWith b [c] \<Longrightarrow> butlast b @ [c] = b"
  using append_butlast_last_id [of b] by (auto simp: endsWith_single)

lemma strip_leading_join: "''/'' @ stripLeadingSlash s = (if startsWith s ''/'' then s else ''/'' @ s)"
  by (cases s) (auto simp: stripLeadingSlash_def startsWith_def)

lemma no_double_trailing:
  "\<not> endsWith b ''//'' \<Longrightarrow> \<not> endsWith (stripTrailingSlash b) ''/''"
proof (cases b rule: rev_cases)
  case Nil
  then show ?thesis by (simp add: stripTrailingSlash_def endsWith_def)
next
  case (snoc b' c)
  assume n: "\<not> endsWith b ''//''"
  show ?thesis
  proof (cases "c = CHR ''/''")
    case True
    with snoc have s: "stripTrailingSlash b = b'" by (simp add: stripTrailingSlash_def endsWith_single)
    from n snoc True have "\<not> (\<exists>b''. b' = b'' @ ''/'')" by (auto simp: endsWith_double)
    then have "\<not> endsWith b' ''/''"
      by (cases b' rule: rev_cases) (auto simp: endsWith_single)
    with s show ?thesis by simp
  next
    case False
    with snoc show ?thesis by (simp add: stripTrailingSlash_def endsWith_single)
  qed
qed

lemma no_double_leading:
  "\<not> startsWith s ''//'' \<Longrightarrow> \<not> startsWith (stripLeadingSlash s) ''/''"
  by (cases s; cases "tl s") (auto simp: stripLeadingSlash_def startsWith_def)

text \<open>
  C2, as the claim states it, fails: one trailing slash is stripped, so a base that ends
  in two slashes leaves a double slash at the join.
\<close>

theorem buildURL_double_slash:
  "buildURL (suffix_params ''https://api.example.com//'' ''items'') no_secrets
     = Inr (''https://api.example.com'' @ ''//'' @ ''items'')"
  by (simp add: buildURL_def getBaseURL_def endsWith_def startsWith_def no_secrets_def
      suffix_params_def)

text \<open>
  C2, amended. For the chosen base (the address parameter if non-empty, the environment
  address otherwise) and a non-empty suffix, the composed URL is the base without one
  trailing slash, one slash, and the suffix without one leading slash; the earlier inline
  composer yields the same URL. So a slash is never missing at the join, and the slash at
  the join is single whenever the base does not end in two slashes and the suffix does not
  start with two.
\<close>

theorem buildURL_join:
  assumes sfx: "truthyS (addressSuffix ps)" and base: "truthyS (chosen_base ps ctx)"
  shows "buildURL ps ctx = Inr (stripTrailingSlash (str_of (chosen_base ps ctx)) @ ''/''
                                 @ stripLeadingSlash (str_of (addressSuffix ps))) \<and>
         determineURL ps ctx = buildURL ps ctx \<and>
         (\<not> endsWith (str_of (chosen_base ps ctx)) ''//''
            \<longrightarrow> \<not> endsWith (stripTrailingSlash (str_of (chosen_base ps ctx))) ''/'') \<and>
         (\<not> startsWith (str_of (addressSuffix ps)) ''//''
            \<longrightarrow> \<not> startsWith (stripLeadingSlash (str_of (addressSuffix ps))) ''/'')"
proof -
  let ?b = "str_of (chosen_base ps ctx)" and ?s = "str_of (addressSuffix ps)"
  have g: "getBaseURL ps ctx = Inr (stripTrailingSlash ?b)"
    using base by (simp add: getBaseURL_def chosen_base_def stripTrailingSlash_def Let_def)
  have b: "buildURL ps ctx = Inr (stripTrailingSlash ?b @ (if startsWith ?s ''/'' then ?s else ''/'' @ ?s))"
    using sfx by (simp add: buildURL_def g)
  have b': "buildURL ps ctx = Inr (stripTrailingSlash ?b @ ''/'' @ stripLeadingSlash ?s)"
    unfolding b strip_leading_join ..
  have a: "appendSuffix ?b (addressSuffix ps) = stripTrailingSlash ?b @ ''/'' @ stripLeadingSlash ?s"
  proof (cases "startsWith ?s ''/''")
    case True
    then have s: "''/'' @ drop 1 ?s = ?s" by (cases ?s) (auto simp: startsWith_def)
    show ?thesis
    proof (cases "endsWith ?b ''/''")
      case e: True
      then have "butlast ?b @ ''/'' = ?b" by (rule butlast_slash)
      then have "?b @ drop 1 ?s = butlast ?b @ ''/'' @ drop 1 ?s"
        by (metis append.assoc)
      with True e sfx show ?thesis
        by (simp add: appendSuffix_def stripTrailingSlash_def stripLeadingSlash_def)
    next
      case False
      with True sfx s show ?thesis
        by (simp add: appendSuffix_def stripTrailingSlash_def stripLeadingSlash_def)
    qed
  next
    case False
    show ?thesis
    proof (cases "endsWith ?b ''/''")
      case e: True
      then have "butlast ?b @ ''/'' = ?b" by (rule butlast_slash)
      then have "?b @ ?s = butlast ?b @ ''/'' @ ?s"
        by (metis append.assoc)
      with False e sfx show ?thesis
        by (simp add: appendSuffix_def stripTrailingSlash_def stripLeadingSlash_def)
    next
      case f: False
      with False sfx show ?thesis
        by (simp add: appendSuffix_def stripTrailingSlash_def stripLeadingSlash_def)
    qed
  qed
  have d: "determineURL ps ctx = Inr (appendSuffix ?b (addressSuffix ps))"
    using base by (auto simp: determineURL_def chosen_base_def split: if_splits)
  from b' a d no_double_trailing [of ?b] no_double_leading [of ?s] show ?thesis by simp
qed

theorem buildURL_join_witness:
  "buildURL (suffix_params ''https://api.example.com/'' ''/endpoint'') no_secrets
     = Inr ''https://api.example.com/endpoint''"
  using buildURL_join [of "suffix_params ''https://api.example.com/'' ''/endpoint''" no_secrets]
  by (simp add: chosen_base_def stripTrailingSlash_def stripLeadingSlash_def endsWith_def
      startsWith_def suffix_params_def)

section \<open>Properties of the error handler\<close>

text \<open>
  C6, as the claim states it, fails where the two lists of markers overlap: a message that
  contains \<^verbatim>\<open>Failed to parse\<close> and also \<^verbatim>\<open>network\<close> is answered with a retry request.
\<close>

theorem error_handler_overlap:
  "contains_any ''Failed to parse requestHeaders: network'' validation_markers \<and>
   error_handler (new_Error ''Failed to parse requestHeaders: network'') = Inr Retry_requested"
  by (simp add: contains_any_def validation_markers_def error_handler_def network_error_def
      new_Error_def startsWith_def)

text \<open>
  C6, amended. The handler returns a retry request when the message contains a network
  marker; it rethrows the error it was given, unchanged, when the message contains a
  validation marker and no network marker; and for an error with no message, or a message
  with none of the markers, it returns a retry request.
\<close>

theorem error_handler_classification:
  "(message err = Some m \<and> contains_any m network_markers
      \<longrightarrow> error_handler err = Inr Retry_requested) \<and>
   (message err = Some m \<and> \<not> contains_any m network_markers \<and> contains_any m validation_markers
      \<longrightarrow> error_handler err = Inl err) \<and>
   ((message err = None \<or>
     message err = Some m \<and> \<not> contains_any m network_markers \<and> \<not> contains_any m validation_markers)
      \<longrightarrow> error_handler err = Inr Retry_requested)"
proof -
  have n: "network_error m = contains_any m network_markers"
    by (auto simp: network_error_def contains_any_def network_markers_def)
  have v: "validation_error m = contains_any m validation_markers"
    by (auto simp: validation_error_def contains_any_def validation_markers_def)
  have e: "m = [] \<Longrightarrow> \<not> contains_any m network_markers \<and> \<not> contains_any m validation_markers"
    by (simp add: contains_any_def network_markers_def validation_markers_def)
  show ?thesis
    using e by (cases "m = []") (auto simp: error_handler_def n v)
qed

theorem error_handler_classification_witness:
  "error_handler (new_Error ''connect ECONNREFUSED 127.0.0.1:443'') = Inr Retry_requested \<and>
   error_handler (new_Error ''method is required'') = Inl (new_Error ''method is required'') \<and>
   error_handler (JsError ''Error'' None) = Inr Retry_requested"
  using error_handler_classification [of "new_Error ''connect ECONNREFUSED 127.0.0.1:443''"
          "''connect ECONNREFUSED 127.0.0.1:443''"]
        error_handler_classification [of "new_Error ''method is required''" "''method is required''"]
        error_handler_classification [of "JsError ''Error'' None" "[]"]
  by (simp add: new_Error_def contains_any_def network_markers_def validation_markers_def
      startsWith_def)

end
